theory Spec2Isabelle
  imports Main
begin

section \<open>Strings and the two regular expressions of script.js\<close>

text \<open>
  A JavaScript string is modelled as an Isabelle \<open>string\<close>: a list of 8-bit characters,
  read as the code units U+0000 .. U+00FF. On that range the class \<open>\s\<close> of a JavaScript
  regular expression (and the characters removed by \<open>trim\<close>) are TAB, LF, VT, FF, CR,
  SPACE and NO-BREAK SPACE; \<open>\d\<close> is \<open>0\<close> .. \<open>9\<close>; \<open>toLowerCase\<close> maps \<open>A\<close> .. \<open>Z\<close> and
  U+00C0 .. U+00DE (without U+00D7) to the character 32 places further on.
\<close>

definition isSpace :: "char \<Rightarrow> bool" where
  "isSpace c = (of_char c \<in> {9, 10, 11, 12, 13, 32, 160 :: nat})"

definition isDigit :: "char \<Rightarrow> bool" where
  "isDigit c = (48 \<le> (of_char c :: nat) \<and> (of_char c :: nat) \<le> 57)"

definition lowerChar :: "char \<Rightarrow> char" where
  "lowerChar c =
     (let n = (of_char c :: nat)
      in if (65 \<le> n \<and> n \<le> 90) \<or> (192 \<le> n \<and> n \<le> 222 \<and> n \<noteq> 215)
         then char_of (n + 32) else c)"

definition toLowerCase :: "string \<Rightarrow> string" where
  "toLowerCase s = map lowerChar s"

definition trim :: "string \<Rightarrow> string" where
  "trim s = rev (dropWhile isSpace (rev (dropWhile isSpace s)))"

text \<open>
  The regular expressions of the script use only character classes, a class repeated once
  or more (\<open>+\<close>), a class repeated a fixed number of times (\<open>{10}\<close>), and the anchors \<open>^\<close>
  and \<open>$\<close> around the whole pattern. An anchored pattern is a list of items; \<open>rmatch\<close> is
  the backtracking matcher: a \<open>+\<close> item first tries to take one more character and then
  falls back to the rest of the pattern. Without the \<open>m\<close> flag \<open>$\<close> matches at the very
  end of the input only, which is the empty-pattern case.
\<close>

datatype cclass = CChar char | CSpace | CDigit

datatype atom = Single cclass | NoneOf "cclass list"

datatype item = Once atom | Many1 atom

fun in_cclass :: "cclass \<Rightarrow> char \<Rightarrow> bool" where
  "in_cclass (CChar a) c = (c = a)"
| "in_cclass CSpace c = isSpace c"
| "in_cclass CDigit c = isDigit c"

fun atom_ok :: "atom \<Rightarrow> char \<Rightarrow> bool" where
  "atom_ok (Single k) c = in_cclass k c"
| "atom_ok (NoneOf ks) c = (\<not> list_ex (\<lambda>k. in_cclass k c) ks)"

fun rmatch :: "item list \<Rightarrow> string \<Rightarrow> bool" where
  "rmatch [] s = (s = [])"
| "rmatch (Once a # r) [] = False"
| "rmatch (Once a # r) (c # cs) = (atom_ok a c \<and> rmatch r cs)"
| "rmatch (Many1 a # r) [] = False"
| "rmatch (Many1 a # r) (c # cs) =
     (atom_ok a c \<and> (rmatch (Many1 a # r) cs \<or> rmatch r cs))"

text \<open>\<open>/^[^\s@]+@[^\s@]+\.[^\s@]+$/\<close>\<close>

definition notSpaceAt :: atom where
  "notSpaceAt = NoneOf [CSpace, CChar CHR ''@'']"

definition re_email :: "item list" where
  "re_email = [Many1 notSpaceAt, Once (Single (CChar CHR ''@'')), Many1 notSpaceAt,
               Once (Single (CChar CHR ''.'')), Many1 notSpaceAt]"

text \<open>\<open>/^\d{10}$/\<close>\<close>

definition re_phone :: "item list" where
  "re_phone = replicate 10 (Once (Single CDigit))"

definition validateEmail :: "string \<Rightarrow> bool" where
  "validateEmail email = rmatch re_email (toLowerCase email)"

definition validatePhone :: "string \<Rightarrow> bool" where
  "validatePhone phone = rmatch re_phone phone"

text \<open>
  The shape the regular expression accepts, stated on the string itself: a part that is
  not empty and holds neither whitespace nor \<open>@\<close>.
\<close>

definition plain :: "string \<Rightarrow> bool" where
  "plain u = (u \<noteq> [] \<and> (\<forall>c\<in>set u. \<not> isSpace c \<and> c \<noteq> CHR ''@''))"

text \<open>
  The specification's own wording of the accepted addresses, kept apart from the code:
  ``no whitespace before \<open>@\<close>, no whitespace between \<open>@\<close> and \<open>.\<close>, and a non-empty
  suffix after the last \<open>.\<close>''.
\<close>

definition spec_before_at :: "string \<Rightarrow> string" where
  "spec_before_at s = takeWhile (\<lambda>c. c \<noteq> CHR ''@'') s"

definition spec_between :: "string \<Rightarrow> string" where
  "spec_between s = takeWhile (\<lambda>c. c \<noteq> CHR ''.'') (drop 1 (dropWhile (\<lambda>c. c \<noteq> CHR ''@'') s))"

definition spec_last_suffix :: "string \<Rightarrow> string" where
  "spec_last_suffix s = rev (takeWhile (\<lambda>c. c \<noteq> CHR ''.'') (rev s))"

definition spec_email_shape :: "string \<Rightarrow> bool" where
  "spec_email_shape s =
     (CHR ''@'' \<in> set s \<and> CHR ''.'' \<in> set s \<and>
      \<not> list_ex isSpace (spec_before_at s) \<and>
      \<not> list_ex isSpace (spec_between s) \<and>
      spec_last_suffix s \<noteq> [])"

section \<open>JavaScript numbers, strings and dates, as far as the script uses them\<close>

text \<open>
  A number that the script handles is an integer or \<open>NaN\<close>; \<open>None\<close> stands for \<open>NaN\<close>.
  \<open>String(n)\<close> prints it in decimal, \<open>padStart(2, '0')\<close> pads on the left, \<open><\<close> on two
  strings compares code units lexicographically.
\<close>

type_synonym jsnum = "int option"

fun digits :: "nat \<Rightarrow> string" where
  "digits n = (if n < 10 then [char_of (48 + n)] else digits (n div 10) @ [char_of (48 + n mod 10)])"

declare digits.simps [simp del]

definition js_String :: "jsnum \<Rightarrow> string" where
  "js_String x =
     (case x of None \<Rightarrow> ''NaN''
      | Some n \<Rightarrow> if n < 0 then CHR ''-'' # digits (nat (- n)) else digits (nat n))"

definition js_plus :: "jsnum \<Rightarrow> int \<Rightarrow> jsnum" where
  "js_plus x k = map_option (\<lambda>n. n + k) x"

definition padStart :: "nat \<Rightarrow> char \<Rightarrow> string \<Rightarrow> string" where
  "padStart n c s = replicate (n - length s) c @ s"

fun str_less :: "string \<Rightarrow> string \<Rightarrow> bool" where
  "str_less [] [] = False"
| "str_less [] (y # ys) = True"
| "str_less (x # xs) [] = False"
| "str_less (x # xs) (y # ys) =
     ((of_char x :: nat) < of_char y \<or> (x = y \<and> str_less xs ys))"

text \<open>
  A \<open>Date\<close> object holds a time value: milliseconds since 1970-01-01T00:00Z, or \<open>NaN\<close> for
  an invalid date. The day and year arithmetic is the one ECMAScript defines
  (\<open>Day\<close>, \<open>DayFromYear\<close>, \<open>YearFromTime\<close>, \<open>MonthFromTime\<close>, \<open>DateFromTime\<close>, \<open>MakeDay\<close>,
  \<open>TimeClip\<close>). The environment gives the current time and the local time zone
  adjustment \<open>LocalTZA\<close> (local time minus UTC, in milliseconds), taken as constant: daylight
  saving changes are outside the model.
\<close>

record env =
  now :: int
  LocalTZA :: int

definition msPerDay :: int where
  "msPerDay = 86400000"

definition Day :: "int \<Rightarrow> int" where
  "Day t = t div msPerDay"

definition TimeWithinDay :: "int \<Rightarrow> int" where
  "TimeWithinDay t = t mod msPerDay"

definition InLeapYear :: "int \<Rightarrow> bool" where
  "InLeapYear y = (y mod 4 = 0 \<and> (y mod 100 \<noteq> 0 \<or> y mod 400 = 0))"

definition DayFromYear :: "int \<Rightarrow> int" where
  "DayFromYear y = 365 * (y - 1970) + (y - 1969) div 4 - (y - 1901) div 100 + (y - 1601) div 400"

definition monthLengths :: "int \<Rightarrow> int list" where
  "monthLengths y = [31, if InLeapYear y then 29 else 28, 31, 30, 31, 30, 31, 31, 30, 31, 30, 31]"

text \<open>
  \<open>YearFromTime\<close> is the largest year whose first day is not after the given day. The
  search starts at a year that is not too late (a year has at most 366 and at least 365
  days) and walks forward.
\<close>

function year_search :: "int \<Rightarrow> int \<Rightarrow> int" where
  "year_search y d = (if DayFromYear (y + 1) \<le> d then year_search (y + 1) d else y)"
  by pat_completeness auto
termination
proof (relation "measure (\<lambda>(y, d). nat (d + 1 - DayFromYear (y + 1)))")
  show "wf (measure (\<lambda>(y, d). nat (d + 1 - DayFromYear (y + 1))))"
    by simp
next
  fix y d :: int
  assume le: "DayFromYear (y + 1) \<le> d"
  have 1: "(y + 1 - 1969) div 4 \<le> (y + 1 + 1 - 1969) div 4"
    by (rule zdiv_mono1) simp_all
  have 2: "(y + 1 + 1 - 1901) div 100 \<le> (y + 1 - 1901) div 100 + 1"
    by linarith
  have 3: "(y + 1 - 1601) div 400 \<le> (y + 1 + 1 - 1601) div 400"
    by (rule zdiv_mono1) simp_all
  have lin: "365 * (y + 1 - 1970) + a - b + c < 365 * (y + 1 + 1 - 1970) + a' - b' + c'"
    if "a \<le> a'" "b' \<le> b + 1" "c \<le> c'" for a a' b b' c c' :: int
    using that by simp
  have "DayFromYear (y + 1) < DayFromYear (y + 1 + 1)"
    unfolding DayFromYear_def by (rule lin [OF 1 2 3])
  with le show "((y + 1, d), (y, d)) \<in> measure (\<lambda>(y, d). nat (d + 1 - DayFromYear (y + 1)))"
    by simp
qed

declare year_search.simps [simp del]

definition YearFromDay :: "int \<Rightarrow> int" where
  "YearFromDay d = year_search (1970 + (if 0 \<le> d then d div 366 else d div 365)) d"

fun month_search :: "int list \<Rightarrow> int \<Rightarrow> nat \<times> int" where
  "month_search [] r = (0, r)"
| "month_search (l # ls) r =
     (if r < l then (0, r) else (case month_search ls (r - l) of (m, r') \<Rightarrow> (Suc m, r')))"

definition YearFromTime :: "int \<Rightarrow> int" where
  "YearFromTime t = YearFromDay (Day t)"

definition DayWithinYear :: "int \<Rightarrow> int" where
  "DayWithinYear t = Day t - DayFromYear (YearFromTime t)"

definition MonthFromTime :: "int \<Rightarrow> int" where
  "MonthFromTime t = int (fst (month_search (monthLengths (YearFromTime t)) (DayWithinYear t)))"

definition DateFromTime :: "int \<Rightarrow> int" where
  "DateFromTime t = snd (month_search (monthLengths (YearFromTime t)) (DayWithinYear t)) + 1"

definition MakeDay :: "int \<Rightarrow> int \<Rightarrow> int \<Rightarrow> int" where
  "MakeDay year month date =
     (let ym = year + month div 12; mn = nat (month mod 12)
      in DayFromYear ym + sum_list (take mn (monthLengths ym)) + date - 1)"

definition MakeDate :: "int \<Rightarrow> int \<Rightarrow> int" where
  "MakeDate day time = day * msPerDay + time"

definition TimeClip :: "int \<Rightarrow> jsnum" where
  "TimeClip t = (if \<bar>t\<bar> > 8640000000000000 then None else Some t)"

definition LocalTime :: "env \<Rightarrow> int \<Rightarrow> int" where
  "LocalTime e t = t + LocalTZA e"

definition UTC :: "env \<Rightarrow> int \<Rightarrow> int" where
  "UTC e t = t - LocalTZA e"

text \<open>
  \<open>new Date(text)\<close>, for the value of a date field. The text is read as three numbers
  separated by hyphens. With a year of four digits, a month of two digits from 01 to 12
  and a day of two digits from 01 to 31 it is a date-only ISO string and denotes midnight
  UTC; a day beyond the month's end rolls over into the next month (\<open>MakeDay\<close>). Any
  other three numbers, among them every year of more than four digits, fall to the
  engine's own rules, which ECMAScript leaves open; the model follows V8 (Chrome, Node):
  the numbers are year, month and day unless the first one could be a day, in which case
  they are month, day and year; a year below 100 is moved into 1950 .. 2049; the month
  must be 1 .. 12 and the day 1 .. 31; and the result is midnight in local time. A text
  that is not three numbers separated by hyphens counts as an invalid date here: a date
  field never holds one, and no theorem below depends on it.
\<close>

definition digit_val :: "char \<Rightarrow> int" where
  "digit_val c = int (of_char c) - 48"

definition number_of :: "string \<Rightarrow> int" where
  "number_of ds = foldl (\<lambda>n c. 10 * n + digit_val c) 0 ds"

definition three_numbers :: "string \<Rightarrow> (string \<times> string \<times> string) option" where
  "three_numbers s =
     (let ys = takeWhile isDigit s; r1 = dropWhile isDigit s;
          ms = takeWhile isDigit (drop 1 r1); r2 = dropWhile isDigit (drop 1 r1);
          ds = drop 1 r2
      in if ys \<noteq> [] \<and> take 1 r1 = ''-'' \<and> ms \<noteq> [] \<and> take 1 r2 = ''-'' \<and>
            ds \<noteq> [] \<and> list_all isDigit ds
         then Some (ys, ms, ds) else None)"

definition IsMonth :: "int \<Rightarrow> bool" where
  "IsMonth x = (1 \<le> x \<and> x \<le> 12)"

definition IsDay :: "int \<Rightarrow> bool" where
  "IsDay x = (1 \<le> x \<and> x \<le> 31)"

definition legacy_ymd :: "int \<Rightarrow> int \<Rightarrow> int \<Rightarrow> (int \<times> int \<times> int) option" where
  "legacy_ymd a b c =
     (let (year, month, day) = (if \<not> IsDay a then (a, b, c) else (c, a, b));
          year' = (if 0 \<le> year \<and> year \<le> 49 then year + 2000
                   else if 50 \<le> year \<and> year \<le> 99 then year + 1900 else year)
      in if IsMonth month \<and> IsDay day then Some (year', month, day) else None)"

definition Date_of_string :: "env \<Rightarrow> string \<Rightarrow> jsnum" where
  "Date_of_string e s =
     (case three_numbers s of
        None \<Rightarrow> None
      | Some (ys, ms, ds) \<Rightarrow>
          (let y = number_of ys; m = number_of ms; d = number_of ds
           in if length ys = 4 \<and> length ms = 2 \<and> IsMonth m \<and> length ds = 2 \<and> IsDay d
              then TimeClip (MakeDate (MakeDay y (m - 1) d) 0)
              else (case legacy_ymd y m d of
                      None \<Rightarrow> None
                    | Some (year, month, day) \<Rightarrow>
                        TimeClip (UTC e (MakeDate (MakeDay year (month - 1) day) 0)))))"

text \<open>\<open>new Date()\<close>, and the methods of \<open>Date\<close> the script calls; all of them read and write local time.\<close>

definition Date_now :: "env \<Rightarrow> jsnum" where
  "Date_now e = Some (now e)"

definition getFullYear :: "env \<Rightarrow> jsnum \<Rightarrow> jsnum" where
  "getFullYear e d = map_option (\<lambda>t. YearFromTime (LocalTime e t)) d"

definition getMonth :: "env \<Rightarrow> jsnum \<Rightarrow> jsnum" where
  "getMonth e d = map_option (\<lambda>t. MonthFromTime (LocalTime e t)) d"

definition getDate :: "env \<Rightarrow> jsnum \<Rightarrow> jsnum" where
  "getDate e d = map_option (\<lambda>t. DateFromTime (LocalTime e t)) d"

definition setDate :: "env \<Rightarrow> jsnum \<Rightarrow> jsnum \<Rightarrow> jsnum" where
  "setDate e d dt =
     (case (d, dt) of
        (Some t0, Some n) \<Rightarrow>
          (let t = LocalTime e t0
           in TimeClip (UTC e (MakeDate (MakeDay (YearFromTime t) (MonthFromTime t) n)
                                  (TimeWithinDay t))))
      | _ \<Rightarrow> None)"

definition setHours0 :: "env \<Rightarrow> jsnum \<Rightarrow> jsnum" where
  "setHours0 e d =
     (case d of None \<Rightarrow> None
      | Some t0 \<Rightarrow> TimeClip (UTC e (MakeDate (Day (LocalTime e t0)) 0)))"

text \<open>\<open><\<close> and \<open><=\<close> on two dates compare the time values; a comparison with \<open>NaN\<close> is false.\<close>

definition date_lt :: "jsnum \<Rightarrow> jsnum \<Rightarrow> bool" where
  "date_lt a b = (case (a, b) of (Some x, Some y) \<Rightarrow> x < y | _ \<Rightarrow> False)"

definition date_le :: "jsnum \<Rightarrow> jsnum \<Rightarrow> bool" where
  "date_le a b = (case (a, b) of (Some x, Some y) \<Rightarrow> x \<le> y | _ \<Rightarrow> False)"

text \<open>The text \<open>yyyy-mm-dd\<close> the script builds from a date (year unpadded, month and day padded).\<close>

definition ymdString :: "env \<Rightarrow> jsnum \<Rightarrow> string" where
  "ymdString e d =
     js_String (getFullYear e d) @ ''-'' @
     padStart 2 CHR ''0'' (js_String (js_plus (getMonth e d) 1)) @ ''-'' @
     padStart 2 CHR ''0'' (js_String (getDate e d))"

section \<open>The document\<close>

text \<open>
  The page is the script's environment. An element carries the properties the script
  reads or writes: its class names, its \<open>textContent\<close>, \<open>style.display\<close>, \<open>value\<close> and \<open>min\<close>;
  \<open>defaultValue\<close> is the value a form control returns to on \<open>form.reset()\<close>, and
  \<open>parentForm\<close> names the form the element lies in. The document maps an id to its
  element (\<open>getElementById\<close>; \<open>None\<close> is \<open>null\<close>). A pending \<open>setTimeout\<close> is a remaining delay in
  milliseconds and the callback to run; the only callback of the script hides one
  element.
\<close>

record element =
  classes :: "string list"
  parentForm :: "string option"
  textContent :: string
  display :: string
  val :: string
  defaultValue :: string
  minAttr :: string

datatype callback = HideElement string

record state =
  elements :: "string \<rightharpoonup> element"
  timers :: "(nat \<times> callback) list"
  defaultPrevented :: bool

datatype error = TypeError

definition bindE :: "error + 'a \<Rightarrow> ('a \<Rightarrow> error + 'b) \<Rightarrow> error + 'b" where
  "bindE m f = (case m of Inl e \<Rightarrow> Inl e | Inr x \<Rightarrow> f x)"

text \<open>Running the statements of a handler in order; the first fault ends the run.\<close>

fun seqE :: "('s \<Rightarrow> error + 's) list \<Rightarrow> 's \<Rightarrow> error + 's" where
  "seqE [] s = Inr s"
| "seqE (f # fs) s = bindE (f s) (seqE fs)"

definition getElementById :: "string \<Rightarrow> state \<Rightarrow> element option" where
  "getElementById i s = elements s i"

text \<open>Reading or writing a property of \<open>null\<close> throws a \<open>TypeError\<close>.\<close>

definition deref :: "element option \<Rightarrow> error + element" where
  "deref r = (case r of None \<Rightarrow> Inl TypeError | Some e \<Rightarrow> Inr e)"

definition modify :: "string \<Rightarrow> (element \<Rightarrow> element) \<Rightarrow> state \<Rightarrow> state" where
  "modify i f s = s\<lparr>elements := (elements s)(i := map_option f (elements s i))\<rparr>"

subsection \<open>Error display\<close>

definition showError :: "string \<Rightarrow> string \<Rightarrow> state \<Rightarrow> state" where
  "showError inputId message s =
     (case getElementById (inputId @ ''-error'') s of
        None \<Rightarrow> s
      | Some errorElement \<Rightarrow>
          modify (inputId @ ''-error'')
            (\<lambda>e. e\<lparr>textContent := message, display := ''block''\<rparr>) s)"

definition clearError :: "string \<Rightarrow> state \<Rightarrow> state" where
  "clearError inputId s =
     (case getElementById (inputId @ ''-error'') s of
        None \<Rightarrow> s
      | Some errorElement \<Rightarrow>
          modify (inputId @ ''-error'')
            (\<lambda>e. e\<lparr>textContent := '''', display := ''none''\<rparr>) s)"

text \<open>\<open>form.querySelectorAll(".error-message")\<close>: the elements of that class inside the form.\<close>

definition isErrorMessageOf :: "string \<Rightarrow> element \<Rightarrow> bool" where
  "isErrorMessageOf form e = (parentForm e = Some form \<and> ''error-message'' \<in> set (classes e))"

definition clearAllErrors :: "string \<Rightarrow> state \<Rightarrow> state" where
  "clearAllErrors form s =
     s\<lparr>elements := (\<lambda>k. map_option
          (\<lambda>msg. if isErrorMessageOf form msg
                  then msg\<lparr>textContent := '''', display := ''none''\<rparr> else msg)
          (elements s k))\<rparr>"

subsection \<open>Form reset and timers\<close>

definition form_reset :: "string \<Rightarrow> state \<Rightarrow> state" where
  "form_reset form s =
     s\<lparr>elements := (\<lambda>k. map_option
          (\<lambda>e. if parentForm e = Some form then e\<lparr>val := defaultValue e\<rparr> else e)
          (elements s k))\<rparr>"

definition setTimeout :: "callback \<Rightarrow> nat \<Rightarrow> state \<Rightarrow> state" where
  "setTimeout cb delay s = s\<lparr>timers := timers s @ [(delay, cb)]\<rparr>"

fun run_callback :: "callback \<Rightarrow> state \<Rightarrow> state" where
  "run_callback (HideElement i) s = modify i (\<lambda>e. e\<lparr>display := ''none''\<rparr>) s"

text \<open>
  Time passing with no other event: the timers that are due run, earliest first and in
  the order they were set among equals; the others come closer. The script never calls
  \<open>clearTimeout\<close>, so nothing else takes a timer away.
\<close>

definition elapse :: "nat \<Rightarrow> state \<Rightarrow> state" where
  "elapse t s =
     foldl (\<lambda>s' dc. run_callback (snd dc) s')
       (s\<lparr>timers := map (\<lambda>dc. (fst dc - t, snd dc)) (filter (\<lambda>dc. t < fst dc) (timers s))\<rparr>)
       (sort_key fst (filter (\<lambda>dc. fst dc \<le> t) (timers s)))"

section \<open>The booking form\<close>

text \<open>
  The state of a submit handler while it runs: the local \<open>isValid\<close> and the page.
  A failing rule assigns \<open>isValid = false\<close> and calls \<open>showError\<close>.
\<close>

type_synonym run = "bool \<times> state"

definition fail :: "string \<Rightarrow> string \<Rightarrow> run \<Rightarrow> run" where
  "fail inputId message r = (False, showError inputId message (snd r))"

definition field :: "string \<Rightarrow> run \<Rightarrow> error + element" where
  "field i r = deref (getElementById i (snd r))"

text \<open>Lines 134 to 138: \<open>preventDefault\<close>, \<open>isValid = true\<close>, clear the errors, hide the old success message.\<close>

definition begin_submit :: "string \<Rightarrow> string \<Rightarrow> state \<Rightarrow> error + run" where
  "begin_submit form message s =
     bindE (deref (getElementById form s)) (\<lambda>_.
       let s1 = clearAllErrors form (s\<lparr>defaultPrevented := True\<rparr>)
       in bindE (deref (getElementById message s1)) (\<lambda>_.
            Inr (True, modify message (\<lambda>e. e\<lparr>display := ''none''\<rparr>) s1)))"

definition rule_name :: "run \<Rightarrow> error + run" where
  "rule_name r =
     bindE (field ''name'' r) (\<lambda>name.
       Inr (if trim (val name) = '''' then fail ''name'' ''Full Name is required.'' r else r))"

definition rule_email :: "run \<Rightarrow> error + run" where
  "rule_email r =
     bindE (field ''email'' r) (\<lambda>email.
       Inr (if trim (val email) = '''' then fail ''email'' ''Email Address is required.'' r
            else if \<not> validateEmail (val email)
            then fail ''email'' ''Please enter a valid email (e.g., name@example.com).'' r
            else r))"

definition rule_countryCode :: "run \<Rightarrow> error + run" where
  "rule_countryCode r =
     bindE (field ''country-code'' r) (\<lambda>countryCode.
       Inr (if trim (val countryCode) = ''''
            then fail ''phone'' ''Please select a country code.'' r else r))"

definition rule_phone :: "run \<Rightarrow> error + run" where
  "rule_phone r =
     bindE (field ''phone'' r) (\<lambda>phone.
       Inr (if trim (val phone) = '''' then fail ''phone'' ''Phone Number is required.'' r
            else if \<not> validatePhone (val phone)
            then fail ''phone'' ''Phone Number must be exactly 10 digits.'' r
            else r))"

definition rule_roomType :: "run \<Rightarrow> error + run" where
  "rule_roomType r =
     bindE (field ''room-type'' r) (\<lambda>roomType.
       Inr (if val roomType = '''' then fail ''room-type'' ''Please select a room type.'' r
            else r))"

definition rule_checkin :: "run \<Rightarrow> error + run" where
  "rule_checkin r =
     bindE (field ''checkin'' r) (\<lambda>checkin.
       Inr (if val checkin = '''' then fail ''checkin'' ''Check-in date is required.'' r
            else r))"

definition rule_checkout :: "run \<Rightarrow> error + run" where
  "rule_checkout r =
     bindE (field ''checkout'' r) (\<lambda>checkout.
       Inr (if val checkout = '''' then fail ''checkout'' ''Check-out date is required.'' r
            else r))"

text \<open>Lines 185 to 202: the two date comparisons, run only when both dates are filled in.\<close>

definition rule_dates :: "env \<Rightarrow> run \<Rightarrow> error + run" where
  "rule_dates e r =
     bindE (field ''checkin'' r) (\<lambda>checkin.
     bindE (field ''checkout'' r) (\<lambda>checkout.
       if val checkin \<noteq> '''' \<and> val checkout \<noteq> '''' then
         (let checkinDate = Date_of_string e (val checkin);
              checkoutDate = Date_of_string e (val checkout);
              todayForCompare = setHours0 e (Date_now e);
              r1 = (if date_lt checkinDate todayForCompare
                    then fail ''checkin'' ''Check-in date cannot be in the past.'' r else r);
              r2 = (if date_le checkoutDate checkinDate
                    then fail ''checkout'' ''Check-out date must be after the check-in date.'' r1
                    else r1)
          in Inr r2)
       else Inr r))"

definition rule_guests :: "run \<Rightarrow> error + run" where
  "rule_guests r =
     bindE (field ''guests'' r) (\<lambda>guests.
       Inr (if val guests = '''' then fail ''guests'' ''Please select the number of guests.'' r
            else r))"

text \<open>
  Lines 211 to 224 (and 274 to 287): on a valid form show the success message, reset the
  form, and set the timer that hides the message after 5000 ms.
\<close>

definition finish_submit :: "string \<Rightarrow> string \<Rightarrow> string \<Rightarrow> run \<Rightarrow> error + run" where
  "finish_submit form message text r =
     (if fst r then
        bindE (field message r) (\<lambda>_.
          Inr (fst r,
               setTimeout (HideElement message) 5000
                 (form_reset form
                   (modify message
                      (\<lambda>e. e\<lparr>textContent := text, classes := [''form-message'', ''success''],
                              display := ''block''\<rparr>) (snd r)))))
      else Inr r)"

definition booking_submit :: "env \<Rightarrow> state \<Rightarrow> error + run" where
  "booking_submit e s =
     bindE (begin_submit ''booking-form'' ''booking-message'' s)
       (seqE [rule_name, rule_email, rule_countryCode, rule_phone, rule_roomType,
              rule_checkin, rule_checkout, rule_dates e, rule_guests,
              finish_submit ''booking-form'' ''booking-message''
                ''Booking confirmed! We will contact you shortly.''])"

text \<open>Lines 99 to 105: the check-in field's minimum is today, in local time.\<close>

definition initBookingForm :: "env \<Rightarrow> state \<Rightarrow> error + state" where
  "initBookingForm e s =
     bindE (deref (getElementById ''checkin'' s)) (\<lambda>_.
       let s1 = modify ''checkin'' (\<lambda>c. c\<lparr>minAttr := ymdString e (Date_now e)\<rparr>) s
       in bindE (deref (getElementById ''booking-form'' s1)) (\<lambda>_. Inr s1))"

text \<open>Lines 108 to 129: the handler of the check-in field's \<open>change\<close> event.\<close>

definition checkin_change :: "env \<Rightarrow> state \<Rightarrow> error + state" where
  "checkin_change e s =
     bindE (deref (getElementById ''checkin'' s)) (\<lambda>checkin.
       if val checkin \<noteq> '''' then
         (let checkinDate = Date_of_string e (val checkin);
              nextDay = setDate e checkinDate (js_plus (getDate e checkinDate) 1);
              checkoutMinDate = ymdString e nextDay
          in bindE (deref (getElementById ''checkout'' s)) (\<lambda>_.
               let s1 = modify ''checkout'' (\<lambda>c. c\<lparr>minAttr := checkoutMinDate\<rparr>) s
               in bindE (deref (getElementById ''checkout'' s1)) (\<lambda>checkout.
                    Inr (if val checkout \<noteq> '''' \<and> str_less (val checkout) checkoutMinDate
                         then modify ''checkout'' (\<lambda>c. c\<lparr>val := ''''\<rparr>) s1 else s1))))
       else
         bindE (deref (getElementById ''checkout'' s)) (\<lambda>_.
           Inr (modify ''checkout'' (\<lambda>c. c\<lparr>minAttr := ''''\<rparr>) s)))"

section \<open>The contact form\<close>

definition rule_contact_name :: "run \<Rightarrow> error + run" where
  "rule_contact_name r =
     bindE (field ''contact-name'' r) (\<lambda>name.
       Inr (if trim (val name) = '''' then fail ''contact-name'' ''Your Name is required.'' r
            else r))"

definition rule_contact_email :: "run \<Rightarrow> error + run" where
  "rule_contact_email r =
     bindE (field ''contact-email'' r) (\<lambda>email.
       Inr (if trim (val email) = ''''
            then fail ''contact-email'' ''Email Address is required.'' r
            else if \<not> validateEmail (val email)
            then fail ''contact-email'' ''Please enter a valid email (e.g., name@example.com).'' r
            else r))"

definition rule_subject :: "run \<Rightarrow> error + run" where
  "rule_subject r =
     bindE (field ''subject'' r) (\<lambda>subject.
       Inr (if trim (val subject) = '''' then fail ''subject'' ''Subject is required.'' r
            else r))"

definition rule_message :: "run \<Rightarrow> error + run" where
  "rule_message r =
     bindE (field ''message'' r) (\<lambda>message.
       Inr (if trim (val message) = '''' then fail ''message'' ''Message is required.'' r
            else r))"

definition contact_submit :: "state \<Rightarrow> error + run" where
  "contact_submit s =
     bindE (begin_submit ''contact-form'' ''contact-message'' s)
       (seqE [rule_contact_name, rule_contact_email, rule_subject, rule_message,
              finish_submit ''contact-form'' ''contact-message''
                ''Thank you! Your message has been sent.''])"

section \<open>Observations and well-formed pages\<close>

text \<open>
  What a user sees of a field's error element: the message, when the element exists and
  is displayed. \<open>fieldValue\<close> reads a control's value.
\<close>

definition error_shown :: "state \<Rightarrow> string \<Rightarrow> string option" where
  "error_shown s inputId =
     (case elements s (inputId @ ''-error'') of
        None \<Rightarrow> None
      | Some e \<Rightarrow> if display e = ''block'' then Some (textContent e) else None)"

definition fieldValue :: "state \<Rightarrow> string \<Rightarrow> string" where
  "fieldValue s k = (case elements s k of None \<Rightarrow> '''' | Some e \<Rightarrow> val e)"

definition displayOf :: "state \<Rightarrow> string \<Rightarrow> string option" where
  "displayOf s k = map_option display (elements s k)"

definition textOf :: "state \<Rightarrow> string \<Rightarrow> string option" where
  "textOf s k = map_option textContent (elements s k)"

text \<open>
  The script expects a page with the form, the success message and the fields
  (\<open>present\<close>), and, for each field that has one, an error element of class
  \<open>error-message\<close> inside the form (\<open>errors_in_form\<close>). \<open>inForm\<close> says that an
  element lies in a form, so that \<open>form.reset()\<close> reaches it, and \<open>defaultOf\<close> reads the
  value it returns to.
\<close>

definition present :: "state \<Rightarrow> string list \<Rightarrow> bool" where
  "present s ks = list_all (\<lambda>k. elements s k \<noteq> None) ks"

definition errors_in_form :: "state \<Rightarrow> string \<Rightarrow> string list \<Rightarrow> bool" where
  "errors_in_form s form ks =
     list_all (\<lambda>k. case elements s (k @ ''-error'') of
                     None \<Rightarrow> False | Some e \<Rightarrow> isErrorMessageOf form e) ks"

definition inForm :: "state \<Rightarrow> string \<Rightarrow> string \<Rightarrow> bool" where
  "inForm s form k = (case elements s k of None \<Rightarrow> False | Some e \<Rightarrow> parentForm e = Some form)"

definition defaultOf :: "state \<Rightarrow> string \<Rightarrow> string" where
  "defaultOf s k = (case elements s k of None \<Rightarrow> '''' | Some e \<Rightarrow> defaultValue e)"

definition booking_ids :: "string list" where
  "booking_ids = [''booking-form'', ''booking-message'', ''name'', ''email'', ''country-code'',
                  ''phone'', ''room-type'', ''checkin'', ''checkout'', ''guests'']"

definition booking_fields :: "string list" where
  "booking_fields = [''name'', ''email'', ''country-code'', ''phone'', ''room-type'',
                     ''checkin'', ''checkout'', ''guests'']"

definition booking_error_fields :: "string list" where
  "booking_error_fields = [''name'', ''email'', ''phone'', ''room-type'', ''checkin'',
                           ''checkout'', ''guests'']"

definition contact_ids :: "string list" where
  "contact_ids = [''contact-form'', ''contact-message'', ''contact-name'', ''contact-email'',
                  ''subject'', ''message'']"

definition contact_fields :: "string list" where
  "contact_fields = [''contact-name'', ''contact-email'', ''subject'', ''message'']"

text \<open>
  A rule in one piece, for the proofs: when the condition holds the rule fails, that is,
  \<open>isValid\<close> becomes false and the message is shown; otherwise nothing changes.
\<close>

definition failIf :: "bool \<Rightarrow> string \<Rightarrow> string \<Rightarrow> run \<Rightarrow> run" where
  "failIf c i m r = (fst r \<and> \<not> c, if c then showError i m (snd r) else snd r)"

text \<open>The conditions of the two date comparisons, on the values of the date fields.\<close>

definition both_dates :: "state \<Rightarrow> bool" where
  "both_dates s = (fieldValue s ''checkin'' \<noteq> '''' \<and> fieldValue s ''checkout'' \<noteq> '''')"

definition checkin_past :: "env \<Rightarrow> state \<Rightarrow> bool" where
  "checkin_past e s =
     date_lt (Date_of_string e (fieldValue s ''checkin'')) (setHours0 e (Date_now e))"

definition checkout_not_after :: "env \<Rightarrow> state \<Rightarrow> bool" where
  "checkout_not_after e s =
     date_le (Date_of_string e (fieldValue s ''checkout''))
       (Date_of_string e (fieldValue s ''checkin''))"

text \<open>
  The page after the opening lines of a submit handler, and the run of the booking
  handler after all of its rules, written with the conditions on the submitted values.
\<close>

definition started :: "string \<Rightarrow> string \<Rightarrow> state \<Rightarrow> state" where
  "started form message s =
     modify message (\<lambda>e. e\<lparr>display := ''none''\<rparr>)
       (clearAllErrors form (s\<lparr>defaultPrevented := True\<rparr>))"

definition email_message :: "string \<Rightarrow> string" where
  "email_message v =
     (if trim v = '''' then ''Email Address is required.''
      else ''Please enter a valid email (e.g., name@example.com).'')"

definition phone_message :: "string \<Rightarrow> string" where
  "phone_message v =
     (if trim v = '''' then ''Phone Number is required.''
      else ''Phone Number must be exactly 10 digits.'')"

definition booking_checked :: "env \<Rightarrow> state \<Rightarrow> run" where
  "booking_checked e s =
     failIf (fieldValue s ''guests'' = '''') ''guests'' ''Please select the number of guests.''
    (failIf (both_dates s \<and> checkout_not_after e s) ''checkout''
        ''Check-out date must be after the check-in date.''
    (failIf (both_dates s \<and> checkin_past e s) ''checkin''
        ''Check-in date cannot be in the past.''
    (failIf (fieldValue s ''checkout'' = '''') ''checkout'' ''Check-out date is required.''
    (failIf (fieldValue s ''checkin'' = '''') ''checkin'' ''Check-in date is required.''
    (failIf (fieldValue s ''room-type'' = '''') ''room-type'' ''Please select a room type.''
    (failIf (trim (fieldValue s ''phone'') = '''' \<or> \<not> validatePhone (fieldValue s ''phone''))
        ''phone'' (phone_message (fieldValue s ''phone''))
    (failIf (trim (fieldValue s ''country-code'') = '''') ''phone''
        ''Please select a country code.''
    (failIf (trim (fieldValue s ''email'') = '''' \<or> \<not> validateEmail (fieldValue s ''email''))
        ''email'' (email_message (fieldValue s ''email''))
    (failIf (trim (fieldValue s ''name'') = '''') ''name'' ''Full Name is required.''
       (True, started ''booking-form'' ''booking-message'' s))))))))))"

definition contact_checked :: "state \<Rightarrow> run" where
  "contact_checked s =
     failIf (trim (fieldValue s ''message'') = '''') ''message'' ''Message is required.''
    (failIf (trim (fieldValue s ''subject'') = '''') ''subject'' ''Subject is required.''
    (failIf (trim (fieldValue s ''contact-email'') = '''' \<or>
             \<not> validateEmail (fieldValue s ''contact-email''))
        ''contact-email'' (email_message (fieldValue s ''contact-email''))
    (failIf (trim (fieldValue s ''contact-name'') = '''') ''contact-name''
        ''Your Name is required.''
       (True, started ''contact-form'' ''contact-message'' s))))"

text \<open>The page after the success branch of a submit handler.\<close>

definition succeeded :: "string \<Rightarrow> string \<Rightarrow> string \<Rightarrow> state \<Rightarrow> state" where
  "succeeded form message text s =
     setTimeout (HideElement message) 5000
       (form_reset form
         (modify message
            (\<lambda>e. e\<lparr>textContent := text, classes := [''form-message'', ''success''],
                    display := ''block''\<rparr>) s))"

definition has_error_element :: "state \<Rightarrow> string \<Rightarrow> string \<Rightarrow> bool" where
  "has_error_element s form k =
     (case elements s (k @ ''-error'') of None \<Rightarrow> False | Some e \<Rightarrow> isErrorMessageOf form e)"

text \<open>
  The value of a date field, as HTML defines it: a year of four or more digits that is
  not zero (a year beyond 9999 is written without leading zeros), a month of two digits
  and a day of two digits that exist in the calendar. \<open>date_value\<close> reads the three
  numbers. \<open>ymd_le a b\<close> says that the day \<open>a\<close> is the day \<open>b\<close> or an earlier one.
\<close>

fun valid_ymd :: "int \<times> int \<times> int \<Rightarrow> bool" where
  "valid_ymd (y, m, d) = (1 \<le> m \<and> m \<le> 12 \<and> 1 \<le> d \<and> d \<le> monthLengths y ! nat (m - 1))"

definition date_value :: "string \<Rightarrow> (int \<times> int \<times> int) option" where
  "date_value s =
     (case three_numbers s of
        None \<Rightarrow> None
      | Some (ys, ms, ds) \<Rightarrow>
          (let y = number_of ys; m = number_of ms; d = number_of ds
           in if (length ys = 4 \<or> 10000 \<le> y) \<and> length ms = 2 \<and> length ds = 2 \<and>
                 1 \<le> y \<and> valid_ymd (y, m, d)
              then Some (y, m, d) else None))"


text \<open>The closing lines of a submit handler on a page that has the success message.\<close>

definition outcome :: "string \<Rightarrow> string \<Rightarrow> string \<Rightarrow> run \<Rightarrow> run" where
  "outcome form message text r =
     (if fst r then (True, succeeded form message text (snd r)) else r)"

text \<open>
  All rules of the booking form pass: name non-empty; email non-empty and well-formed;
  country code selected; phone non-empty and exactly ten digits; room type selected;
  check-in and check-out present; check-in not before today and check-out after
  check-in, as the script compares them; number of guests selected.
\<close>

definition booking_rules_pass :: "env \<Rightarrow> state \<Rightarrow> bool" where
  "booking_rules_pass e s =
     (trim (fieldValue s ''name'') \<noteq> '''' \<and>
      trim (fieldValue s ''email'') \<noteq> '''' \<and> validateEmail (fieldValue s ''email'') \<and>
      trim (fieldValue s ''country-code'') \<noteq> '''' \<and>
      trim (fieldValue s ''phone'') \<noteq> '''' \<and> validatePhone (fieldValue s ''phone'') \<and>
      fieldValue s ''room-type'' \<noteq> '''' \<and>
      fieldValue s ''checkin'' \<noteq> '''' \<and>
      fieldValue s ''checkout'' \<noteq> '''' \<and>
      \<not> checkin_past e s \<and>
      \<not> checkout_not_after e s \<and>
      fieldValue s ''guests'' \<noteq> '''')"

section \<open>Example pages\<close>

text \<open>
  Concrete pages and environments on which the theorems are run: a booking page and a
  contact page with every element the script looks up, the fields holding the given
  values and empty defaults, no timer pending. The error elements are hidden
  \<open>error-message\<close> elements of the form; the country code has none of its own.
\<close>

definition control :: "string \<Rightarrow> string \<Rightarrow> element" where
  "control form v = \<lparr>classes = [], parentForm = Some form, textContent = '''', display = '''',
                     val = v, defaultValue = '''', minAttr = ''''\<rparr>"

definition errorElement :: "string \<Rightarrow> element" where
  "errorElement form = \<lparr>classes = [''error-message''], parentForm = Some form,
                        textContent = '''', display = ''none'', val = '''', defaultValue = '''',
                        minAttr = ''''\<rparr>"

definition plainElement :: "string list \<Rightarrow> element" where
  "plainElement cs = \<lparr>classes = cs, parentForm = None, textContent = '''', display = ''none'',
                      val = '''', defaultValue = '''', minAttr = ''''\<rparr>"

definition booking_page ::
  "string \<Rightarrow> string \<Rightarrow> string \<Rightarrow> string \<Rightarrow> string \<Rightarrow> string \<Rightarrow> string \<Rightarrow> string \<Rightarrow> state" where
  "booking_page name email countryCode phone roomType checkin checkout guests =
     \<lparr>elements = map_of
        [(''booking-form'', plainElement []),
         (''booking-message'', plainElement [''form-message'']),
         (''name'', control ''booking-form'' name),
         (''email'', control ''booking-form'' email),
         (''country-code'', control ''booking-form'' countryCode),
         (''phone'', control ''booking-form'' phone),
         (''room-type'', control ''booking-form'' roomType),
         (''checkin'', control ''booking-form'' checkin),
         (''checkout'', control ''booking-form'' checkout),
         (''guests'', control ''booking-form'' guests),
         (''name-error'', errorElement ''booking-form''),
         (''email-error'', errorElement ''booking-form''),
         (''phone-error'', errorElement ''booking-form''),
         (''room-type-error'', errorElement ''booking-form''),
         (''checkin-error'', errorElement ''booking-form''),
         (''checkout-error'', errorElement ''booking-form''),
         (''guests-error'', errorElement ''booking-form'')],
      timers = [], defaultPrevented = False\<rparr>"

definition contact_page :: "string \<Rightarrow> string \<Rightarrow> string \<Rightarrow> string \<Rightarrow> state" where
  "contact_page name email subject message =
     \<lparr>elements = map_of
        [(''contact-form'', plainElement []),
         (''contact-message'', plainElement [''form-message'']),
         (''contact-name'', control ''contact-form'' name),
         (''contact-email'', control ''contact-form'' email),
         (''subject'', control ''contact-form'' subject),
         (''message'', control ''contact-form'' message),
         (''contact-name-error'', errorElement ''contact-form''),
         (''contact-email-error'', errorElement ''contact-form''),
         (''subject-error'', errorElement ''contact-form''),
         (''message-error'', errorElement ''contact-form'')],
      timers = [], defaultPrevented = False\<rparr>"

text \<open>
  Noon of 15 June 2024, local time, in three places: at UTC, in New York (UTC-4 at that
  date, so 16:00Z) and in Kolkata (UTC+5:30, so 06:30Z).
\<close>

definition env_utc :: env where
  "env_utc = \<lparr>now = 1718452800000, LocalTZA = 0\<rparr>"

definition env_new_york :: env where
  "env_new_york = \<lparr>now = 1718467200000, LocalTZA = - 14400000\<rparr>"

definition env_kolkata :: env where
  "env_kolkata = \<lparr>now = 1718433000000, LocalTZA = 19800000\<rparr>"

text \<open>The submitted forms the theorems are run on.\<close>

definition booking_empty :: state where
  "booking_empty = booking_page '''' '''' '''' '''' '''' '''' '''' ''''"

definition contact_empty :: state where
  "contact_empty = contact_page '''' '''' '''' ''''"

definition booking_good :: state where
  "booking_good = booking_page ''Ann'' ''ann@example.com'' ''+1'' ''1234567890'' ''double''
                    ''2024-06-20'' ''2024-06-22'' ''2''"

definition booking_bad_name_phone :: state where
  "booking_bad_name_phone = booking_page '''' ''ann@example.com'' ''+1'' ''12345'' ''double''
                              ''2024-06-20'' ''2024-06-22'' ''2''"

definition booking_no_country_no_phone :: state where
  "booking_no_country_no_phone = booking_page ''Ann'' ''ann@example.com'' '''' '''' ''double''
                                   ''2024-06-20'' ''2024-06-22'' ''2''"

definition booking_no_country :: state where
  "booking_no_country = booking_page ''Ann'' ''ann@example.com'' '''' ''1234567890'' ''double''
                          ''2024-06-20'' ''2024-06-22'' ''2''"


definition booking_from_today :: state where
  "booking_from_today = booking_page ''Ann'' ''ann@example.com'' ''+1'' ''1234567890'' ''double''
                          ''2024-06-15'' ''2024-06-22'' ''2''"

definition booking_one_night_today :: state where
  "booking_one_night_today = booking_page ''Ann'' ''ann@example.com'' ''+1'' ''1234567890''
                               ''double'' ''2024-06-15'' ''2024-06-15'' ''2''"



text \<open>The valid form on a page that presets the name field to \<open>Guest\<close>.\<close>

definition booking_preset :: state where
  "booking_preset = modify ''name'' (\<lambda>e. e\<lparr>defaultValue := ''Guest''\<rparr>) booking_good"

section \<open>Properties of the validators\<close>

lemma rmatch_Once:
  "rmatch (Once a # r) s \<longleftrightarrow> (\<exists>c v. s = c # v \<and> atom_ok a c \<and> rmatch r v)"
  by (cases s) auto

lemma rmatch_Many1:
  "rmatch (Many1 a # r) s \<longleftrightarrow>
     (\<exists>u v. s = u @ v \<and> u \<noteq> [] \<and> (\<forall>c\<in>set u. atom_ok a c) \<and> rmatch r v)"
proof (induction s)
  case Nil
  then show ?case by simp
next
  case (Cons c cs)
  show ?case
  proof
    assume "rmatch (Many1 a # r) (c # cs)"
    then have ok: "atom_ok a c" and alt: "rmatch (Many1 a # r) cs \<or> rmatch r cs"
      by simp_all
    from alt show "\<exists>u v. c # cs = u @ v \<and> u \<noteq> [] \<and> (\<forall>c\<in>set u. atom_ok a c) \<and> rmatch r v"
    proof
      assume "rmatch (Many1 a # r) cs"
      then obtain u v where "cs = u @ v" "u \<noteq> []" "\<forall>c\<in>set u. atom_ok a c" "rmatch r v"
        using Cons.IH by blast
      with ok have "c # cs = (c # u) @ v \<and> c # u \<noteq> [] \<and> (\<forall>x\<in>set (c # u). atom_ok a x) \<and> rmatch r v"
        by simp
      then show ?thesis by blast
    next
      assume "rmatch r cs"
      with ok have "c # cs = [c] @ cs \<and> [c] \<noteq> [] \<and> (\<forall>x\<in>set [c]. atom_ok a x) \<and> rmatch r cs"
        by simp
      then show ?thesis by blast
    qed
  next
    assume "\<exists>u v. c # cs = u @ v \<and> u \<noteq> [] \<and> (\<forall>c\<in>set u. atom_ok a c) \<and> rmatch r v"
    then obtain u v where uv: "c # cs = u @ v" "u \<noteq> []" "\<forall>c\<in>set u. atom_ok a c" "rmatch r v"
      by blast
    then obtain u' where u: "u = c # u'" and cs: "cs = u' @ v"
      by (cases u) auto
    show "rmatch (Many1 a # r) (c # cs)"
    proof (cases "u' = []")
      case True
      with uv u cs show ?thesis by simp
    next
      case False
      with uv u cs have "rmatch (Many1 a # r) cs"
        using Cons.IH by auto
      with uv u show ?thesis by simp
    qed
  qed
qed

lemma rmatch_replicate_Once:
  "rmatch (replicate n (Once a)) s \<longleftrightarrow> length s = n \<and> (\<forall>c\<in>set s. atom_ok a c)"
proof (induction n arbitrary: s)
  case 0
  then show ?case by auto
next
  case (Suc n)
  then show ?case by (cases s) auto
qed

lemma atom_ok_notSpaceAt: "atom_ok notSpaceAt c \<longleftrightarrow> \<not> isSpace c \<and> c \<noteq> CHR ''@''"
  by (simp add: notSpaceAt_def)

lemma of_char_lowerChar:
  "(of_char (lowerChar c) :: nat) =
     (let n = of_char c
      in if (65 \<le> n \<and> n \<le> 90) \<or> (192 \<le> n \<and> n \<le> 222 \<and> n \<noteq> 215) then n + 32 else n)"
  by (auto simp: lowerChar_def Let_def)

lemma char_eq_iff_code: "c = d \<longleftrightarrow> (of_char c :: nat) = of_char d"
  by (metis char_of_char)

lemma lowerChar_at [simp]: "lowerChar c = CHR ''@'' \<longleftrightarrow> c = CHR ''@''"
  unfolding char_eq_iff_code [of _ "CHR ''@''"] of_char_lowerChar by (simp add: Let_def)

lemma lowerChar_dot [simp]: "lowerChar c = CHR ''.'' \<longleftrightarrow> c = CHR ''.''"
  unfolding char_eq_iff_code [of _ "CHR ''.''"] of_char_lowerChar by (simp add: Let_def)

lemma lowerChar_space [simp]: "isSpace (lowerChar c) \<longleftrightarrow> isSpace c"
  by (auto simp: isSpace_def of_char_lowerChar Let_def)

lemma rmatch_Many1_I:
  "u \<noteq> [] \<Longrightarrow> \<forall>c\<in>set u. atom_ok a c \<Longrightarrow> rmatch r v \<Longrightarrow> rmatch (Many1 a # r) (u @ v)"
  using rmatch_Many1 [of a r "u @ v"] by blast

lemma rmatch_Many1_D:
  "rmatch (Many1 a # r) s \<Longrightarrow> \<exists>u v. s = u @ v \<and> u \<noteq> [] \<and> (\<forall>c\<in>set u. atom_ok a c) \<and> rmatch r v"
  using rmatch_Many1 [of a r s] by blast

lemma rmatch_plain_I: "plain u \<Longrightarrow> rmatch r v \<Longrightarrow> rmatch (Many1 notSpaceAt # r) (u @ v)"
  by (rule rmatch_Many1_I) (simp_all add: plain_def atom_ok_notSpaceAt)

lemma rmatch_plain_D:
  "rmatch (Many1 notSpaceAt # r) s \<Longrightarrow> \<exists>u v. s = u @ v \<and> plain u \<and> rmatch r v"
  by (drule rmatch_Many1_D) (simp add: plain_def atom_ok_notSpaceAt)

lemma rmatch_char_D: "rmatch (Once (Single (CChar a)) # r) s \<Longrightarrow> \<exists>v. s = a # v \<and> rmatch r v"
  by (cases s) simp_all

lemma rmatch_re_email:
  "rmatch re_email s \<longleftrightarrow>
     (\<exists>l d t. s = l @ ''@'' @ d @ ''.'' @ t \<and> plain l \<and> plain d \<and> plain t)"
proof
  assume "rmatch re_email s"
  then have "rmatch (Many1 notSpaceAt # [Once (Single (CChar CHR ''@'')), Many1 notSpaceAt,
               Once (Single (CChar CHR ''.'')), Many1 notSpaceAt]) s"
    by (simp only: re_email_def)
  from rmatch_plain_D [OF this] obtain l v1 where 1: "s = l @ v1" "plain l"
      and r1: "rmatch (Once (Single (CChar CHR ''@'')) # [Many1 notSpaceAt,
               Once (Single (CChar CHR ''.'')), Many1 notSpaceAt]) v1"
    by blast
  from rmatch_char_D [OF r1] obtain v2 where 2: "v1 = CHR ''@'' # v2"
      and r2: "rmatch (Many1 notSpaceAt # [Once (Single (CChar CHR ''.'')), Many1 notSpaceAt]) v2"
    by blast
  from rmatch_plain_D [OF r2] obtain d v3 where 3: "v2 = d @ v3" "plain d"
      and r3: "rmatch (Once (Single (CChar CHR ''.'')) # [Many1 notSpaceAt]) v3"
    by blast
  from rmatch_char_D [OF r3] obtain v4 where 4: "v3 = CHR ''.'' # v4"
      and r4: "rmatch (Many1 notSpaceAt # []) v4"
    by blast
  from rmatch_plain_D [OF r4] obtain t v5 where 5: "v4 = t @ v5" "plain t" and r5: "rmatch [] v5"
    by blast
  from r5 have "v5 = []" by simp
  with 1 2 3 4 5 have "s = l @ ''@'' @ d @ ''.'' @ t" by simp
  with 1 3 5 show "\<exists>l d t. s = l @ ''@'' @ d @ ''.'' @ t \<and> plain l \<and> plain d \<and> plain t"
    by blast
next
  assume "\<exists>l d t. s = l @ ''@'' @ d @ ''.'' @ t \<and> plain l \<and> plain d \<and> plain t"
  then obtain l d t where s: "s = l @ ''@'' @ d @ ''.'' @ t" and p: "plain l" "plain d" "plain t"
    by blast
  have "rmatch [] []" by simp
  from rmatch_plain_I [OF p(3) this] have "rmatch [Many1 notSpaceAt] t" by simp
  then have "rmatch [Once (Single (CChar CHR ''.'')), Many1 notSpaceAt] (''.'' @ t)"
    by simp
  from rmatch_plain_I [OF p(2) this]
  have "rmatch [Once (Single (CChar CHR ''@'')), Many1 notSpaceAt,
       Once (Single (CChar CHR ''.'')), Many1 notSpaceAt] (''@'' @ d @ ''.'' @ t)"
    by simp
  from rmatch_plain_I [OF p(1) this] show "rmatch re_email s"
    by (simp only: re_email_def s)
qed

lemma plain_toLowerCase: "plain (toLowerCase u) \<longleftrightarrow> plain u"
  by (simp add: plain_def toLowerCase_def)


lemma toLowerCase_append_D:
  "toLowerCase s = u @ v \<Longrightarrow> \<exists>u' v'. s = u' @ v' \<and> toLowerCase u' = u \<and> toLowerCase v' = v"
  unfolding toLowerCase_def by (simp add: map_eq_append_conv) blast

lemma toLowerCase_at_D:
  "toLowerCase s = CHR ''@'' # v \<Longrightarrow> \<exists>v'. s = CHR ''@'' # v' \<and> toLowerCase v' = v"
  unfolding toLowerCase_def by (cases s) simp_all

lemma toLowerCase_dot_D:
  "toLowerCase s = CHR ''.'' # v \<Longrightarrow> \<exists>v'. s = CHR ''.'' # v' \<and> toLowerCase v' = v"
  unfolding toLowerCase_def by (cases s) simp_all

lemma toLowerCase_shape:
  "toLowerCase (l @ ''@'' @ d @ ''.'' @ t) = toLowerCase l @ ''@'' @ toLowerCase d @ ''.'' @ toLowerCase t"
  by (simp add: toLowerCase_def lowerChar_def)

lemma validateEmail_iff:
  "validateEmail s \<longleftrightarrow>
     (\<exists>l d t. s = l @ ''@'' @ d @ ''.'' @ t \<and> plain l \<and> plain d \<and> plain t)"
proof
  assume "validateEmail s"
  then obtain l d t where low: "toLowerCase s = l @ ''@'' @ d @ ''.'' @ t"
      and p: "plain l" "plain d" "plain t"
    unfolding validateEmail_def rmatch_re_email by blast
  from toLowerCase_append_D [OF low] obtain l' v1 where
    1: "s = l' @ v1" "toLowerCase l' = l" "toLowerCase v1 = ''@'' @ d @ ''.'' @ t" by blast
  from 1(3) have "toLowerCase v1 = CHR ''@'' # (d @ ''.'' @ t)" by simp
  from toLowerCase_at_D [OF this] obtain v2 where
    2: "v1 = CHR ''@'' # v2" "toLowerCase v2 = d @ ''.'' @ t" by blast
  from toLowerCase_append_D [OF 2(2)] obtain d' v3 where
    3: "v2 = d' @ v3" "toLowerCase d' = d" "toLowerCase v3 = ''.'' @ t" by blast
  from 3(3) have "toLowerCase v3 = CHR ''.'' # t" by simp
  from toLowerCase_dot_D [OF this] obtain t' where
    4: "v3 = CHR ''.'' # t'" "toLowerCase t' = t" by blast
  from 1 2 3 4 have "s = l' @ ''@'' @ d' @ ''.'' @ t'" by simp
  moreover from p 1(2) 3(2) 4(2) have "plain l'" "plain d'" "plain t'"
    using plain_toLowerCase by blast+
  ultimately show "\<exists>l d t. s = l @ ''@'' @ d @ ''.'' @ t \<and> plain l \<and> plain d \<and> plain t"
    by blast
next
  assume "\<exists>l d t. s = l @ ''@'' @ d @ ''.'' @ t \<and> plain l \<and> plain d \<and> plain t"
  then obtain l d t where s: "s = l @ ''@'' @ d @ ''.'' @ t" and p: "plain l" "plain d" "plain t"
    by blast
  from p have "plain (toLowerCase l)" "plain (toLowerCase d)" "plain (toLowerCase t)"
    by (simp_all add: plain_toLowerCase)
  then have "rmatch re_email (toLowerCase l @ ''@'' @ toLowerCase d @ ''.'' @ toLowerCase t)"
    unfolding rmatch_re_email by blast
  then show "validateEmail s"
    by (simp only: validateEmail_def s toLowerCase_shape)
qed

lemma isDigit_iff: "isDigit c \<longleftrightarrow> c \<in> set ''0123456789''"
  unfolding isDigit_def by (simp add: char_eq_iff_code [of c]) arith

lemma validateEmail_no_space: "validateEmail s \<Longrightarrow> \<not> list_ex isSpace s"
proof -
  assume "validateEmail s"
  then obtain l d t where s: "s = l @ ''@'' @ d @ ''.'' @ t" and p: "plain l" "plain d" "plain t"
    unfolding validateEmail_iff by blast
  have "\<not> isSpace CHR ''@''" "\<not> isSpace CHR ''.''" by (simp_all add: isSpace_def)
  with p show ?thesis unfolding s by (simp add: plain_def list_ex_iff) blast
qed

lemma validateEmail_has_at_dot: "validateEmail s \<Longrightarrow> CHR ''@'' \<in> set s \<and> CHR ''.'' \<in> set s"
proof -
  assume "validateEmail s"
  then obtain l d t where s: "s = l @ ''@'' @ d @ ''.'' @ t"
    unfolding validateEmail_iff by blast
  show ?thesis unfolding s by simp
qed

text \<open>
  Claim C1 as it stands fails: the specification's wording of the accepted addresses is
  not what the pattern accepts.
  The string \<open>a@b.c d\<close> has no whitespace before \<open>@\<close>, none between \<open>@\<close> and \<open>.\<close>, and the non-empty
  suffix \<open>c d\<close> after its last dot, and \<open>validateEmail\<close> rejects it.
\<close>

theorem validateEmail_spec_shape_counterexample:
  "spec_email_shape ''a@b.c d'' \<and> \<not> validateEmail ''a@b.c d''"
  by code_simp

text \<open>
  Claim C1, as amended. \<open>validateEmail s\<close> is true exactly when \<open>s\<close> is
  \<open>local@domain.tld\<close> with each of the three parts non-empty and free of whitespace and of
  \<open>@\<close> (the parts may contain further dots; lower-casing changes none of this). Hence a
  string that contains whitespace anywhere, or no \<open>@\<close>, or no \<open>.\<close>, is rejected.
\<close>

theorem validateEmail_shape:
  "(validateEmail s \<longleftrightarrow>
      (\<exists>l d t. s = l @ ''@'' @ d @ ''.'' @ t \<and> plain l \<and> plain d \<and> plain t)) \<and>
   (list_ex isSpace s \<or> CHR ''@'' \<notin> set s \<or> CHR ''.'' \<notin> set s \<longrightarrow> \<not> validateEmail s)"
  using validateEmail_iff [of s] validateEmail_no_space [of s] validateEmail_has_at_dot [of s]
  by blast

text \<open>The theorem at \<open>john@example.com\<close> (accepted) and \<open>john@example\<close> (rejected, no dot).\<close>

theorem validateEmail_shape_witness:
  "validateEmail ''john@example.com'' \<and>
   (\<exists>l d t. ''john@example.com'' = l @ ''@'' @ d @ ''.'' @ t \<and> plain l \<and> plain d \<and> plain t) \<and>
   CHR ''.'' \<notin> set ''john@example'' \<and> \<not> validateEmail ''john@example''"
proof -
  have a: "validateEmail ''john@example.com''" by code_simp
  have b: "CHR ''.'' \<notin> set ''john@example''" by simp
  from a b validateEmail_shape [of "''john@example.com''"] validateEmail_shape [of "''john@example''"]
  show ?thesis by blast
qed

text \<open>
  Claim C2. \<open>validatePhone s\<close> is true exactly when \<open>s\<close> consists of exactly ten decimal
  digits; \<open>12345\<close> is rejected and \<open>1234567890\<close> is accepted.
\<close>

theorem validatePhone_exactly_10_digits:
  "(validatePhone s \<longleftrightarrow> length s = 10 \<and> (\<forall>c\<in>set s. c \<in> set ''0123456789'')) \<and>
   \<not> validatePhone ''12345'' \<and> validatePhone ''1234567890''"
proof -
  have "validatePhone s \<longleftrightarrow> length s = 10 \<and> (\<forall>c\<in>set s. c \<in> set ''0123456789'')"
    by (simp only: validatePhone_def re_phone_def rmatch_replicate_Once atom_ok.simps
          in_cclass.simps isDigit_iff)
  moreover have "\<not> validatePhone ''12345''" by code_simp
  moreover have "validatePhone ''1234567890''" by code_simp
  ultimately show ?thesis by blast
qed

text \<open>The theorem at a ten-digit string, at one with a blank, and at one with eleven digits.\<close>

theorem validatePhone_exactly_10_digits_witness:
  "validatePhone ''9876543210'' \<and> length ''9876543210'' = 10 \<and>
   list_all (\<lambda>c. c \<in> set ''0123456789'') ''9876543210'' \<and>
   \<not> validatePhone ''98765 4321'' \<and> \<not> validatePhone ''98765432100''"
proof -
  have a: "length ''9876543210'' = 10 \<and> (\<forall>c\<in>set ''9876543210''. c \<in> set ''0123456789'')"
    by simp
  have a': "list_all (\<lambda>c. c \<in> set ''0123456789'') ''9876543210''"
    by simp
  have b: "CHR '' '' \<in> set ''98765 4321'' \<and> CHR '' '' \<notin> set ''0123456789''" by simp
  have c: "length ''98765432100'' \<noteq> 10" by simp
  from a b c validatePhone_exactly_10_digits [of "''9876543210''"]
    validatePhone_exactly_10_digits [of "''98765 4321''"]
    validatePhone_exactly_10_digits [of "''98765432100''"]
  have "validatePhone ''9876543210'' \<and> \<not> validatePhone ''98765 4321'' \<and>
        \<not> validatePhone ''98765432100''"
    by blast
  with a a' show ?thesis by blast
qed

section \<open>The handlers, rule by rule\<close>

lemma bindE_Inr [simp]: "bindE (Inr x) f = f x"
  by (simp add: bindE_def)

lemma bindE_Inl [simp]: "bindE (Inl x) f = Inl x"
  by (simp add: bindE_def)

lemma bindE_seqE_Nil [simp]: "bindE m (seqE []) = m"
  by (cases m) simp_all

lemma deref_Some [simp]: "deref (Some e) = Inr e"
  by (simp add: deref_def)

lemma deref_None [simp]: "deref None = Inl TypeError"
  by (simp add: deref_def)

lemma elements_modify:
  "elements (modify i f s) k = map_option (\<lambda>e. if k = i then f e else e) (elements s k)"
  by (simp add: modify_def option.map_ident)

lemma timers_modify [simp]: "timers (modify i f s) = timers s"
  by (simp add: modify_def)

lemma elements_showError:
  "elements (showError i m s) k =
     map_option (\<lambda>e. if k = i @ ''-error'' then e\<lparr>textContent := m, display := ''block''\<rparr> else e)
       (elements s k)"
proof (cases "k = i @ ''-error''")
  case True
  then show ?thesis
    by (cases "elements s (i @ ''-error'')")
       (simp_all add: showError_def getElementById_def elements_modify)
next
  case False
  then show ?thesis
    by (cases "elements s (i @ ''-error'')")
       (simp_all add: showError_def getElementById_def elements_modify option.map_ident)
qed

lemma timers_showError [simp]: "timers (showError i m s) = timers s"
  by (simp add: showError_def split: option.splits)

lemma fst_failIf [simp]: "fst (failIf c i m r) = (fst r \<and> \<not> c)"
  by (simp add: failIf_def)

lemma elements_failIf:
  "elements (snd (failIf c i m r)) k =
     map_option (\<lambda>e. if c \<and> k = i @ ''-error'' then e\<lparr>textContent := m, display := ''block''\<rparr> else e)
       (elements (snd r) k)"
  by (simp add: failIf_def elements_showError option.map_ident)

lemma timers_failIf [simp]: "timers (snd (failIf c i m r)) = timers (snd r)"
  by (simp add: failIf_def)

lemma fieldValue_failIf [simp]: "fieldValue (snd (failIf c i m r)) k = fieldValue (snd r) k"
  by (cases "elements (snd r) k") (simp_all add: fieldValue_def elements_failIf)

lemma present_failIf [simp]:
  "(elements (snd (failIf c i m r)) k = None) = (elements (snd r) k = None)"
  by (simp add: elements_failIf)

lemma both_dates_failIf [simp]: "both_dates (snd (failIf c i m r)) = both_dates (snd r)"
  by (simp add: both_dates_def)

lemma checkin_past_failIf [simp]: "checkin_past e (snd (failIf c i m r)) = checkin_past e (snd r)"
  by (simp add: checkin_past_def)

lemma checkout_not_after_failIf [simp]:
  "checkout_not_after e (snd (failIf c i m r)) = checkout_not_after e (snd r)"
  by (simp add: checkout_not_after_def)

lemma elements_started:
  "elements (started form msg s) k =
     map_option (\<lambda>e. if k = msg then (if isErrorMessageOf form e
                                       then e\<lparr>textContent := '''', display := ''none''\<rparr>
                                       else e)\<lparr>display := ''none''\<rparr>
                     else if isErrorMessageOf form e
                          then e\<lparr>textContent := '''', display := ''none''\<rparr> else e)
       (elements s k)"
  by (cases "elements s k") (simp_all add: started_def elements_modify clearAllErrors_def)

lemma timers_started [simp]: "timers (started form msg s) = timers s"
  by (simp add: started_def clearAllErrors_def)

lemma fieldValue_started [simp]: "fieldValue (started form msg s) k = fieldValue s k"
  by (cases "elements s k") (simp_all add: fieldValue_def elements_started)

lemma present_started [simp]: "(elements (started form msg s) k = None) = (elements s k = None)"
  by (simp add: elements_started)

lemma both_dates_started [simp]: "both_dates (started form msg s) = both_dates s"
  by (simp add: both_dates_def)

lemma checkin_past_started [simp]: "checkin_past e (started form msg s) = checkin_past e s"
  by (simp add: checkin_past_def)

lemma checkout_not_after_started [simp]:
  "checkout_not_after e (started form msg s) = checkout_not_after e s"
  by (simp add: checkout_not_after_def)

lemma field_eq:
  "field k r = (case elements (snd r) k of None \<Rightarrow> Inl TypeError | Some e \<Rightarrow> Inr e)"
  by (simp add: field_def getElementById_def deref_def)

lemma fail_eq: "fail i m r = failIf True i m r"
  by (simp add: fail_def failIf_def)

lemma failIf_False: "failIf False i m r = r"
  by (simp add: failIf_def)

lemma begin_submit_eq:
  "elements s form \<noteq> None \<Longrightarrow> elements s msg \<noteq> None \<Longrightarrow>
   begin_submit form msg s = Inr (True, started form msg s)"
  by (auto simp: begin_submit_def started_def getElementById_def clearAllErrors_def Let_def)

lemma rule_name_eq:
  "elements (snd r) ''name'' \<noteq> None \<Longrightarrow>
   rule_name r = Inr (failIf (trim (fieldValue (snd r) ''name'') = '''') ''name''
                        ''Full Name is required.'' r)"
  by (auto simp: rule_name_def field_eq fieldValue_def fail_eq failIf_False)

lemma rule_email_eq:
  "elements (snd r) ''email'' \<noteq> None \<Longrightarrow>
   rule_email r = Inr (failIf (trim (fieldValue (snd r) ''email'') = '''' \<or>
                               \<not> validateEmail (fieldValue (snd r) ''email'')) ''email''
                        (email_message (fieldValue (snd r) ''email'')) r)"
  by (auto simp: rule_email_def field_eq fieldValue_def fail_eq failIf_False email_message_def)

lemma rule_countryCode_eq:
  "elements (snd r) ''country-code'' \<noteq> None \<Longrightarrow>
   rule_countryCode r = Inr (failIf (trim (fieldValue (snd r) ''country-code'') = '''') ''phone''
                        ''Please select a country code.'' r)"
  by (auto simp: rule_countryCode_def field_eq fieldValue_def fail_eq failIf_False)

lemma rule_phone_eq:
  "elements (snd r) ''phone'' \<noteq> None \<Longrightarrow>
   rule_phone r = Inr (failIf (trim (fieldValue (snd r) ''phone'') = '''' \<or>
                               \<not> validatePhone (fieldValue (snd r) ''phone'')) ''phone''
                        (phone_message (fieldValue (snd r) ''phone'')) r)"
  by (auto simp: rule_phone_def field_eq fieldValue_def fail_eq failIf_False phone_message_def)

lemma rule_roomType_eq:
  "elements (snd r) ''room-type'' \<noteq> None \<Longrightarrow>
   rule_roomType r = Inr (failIf (fieldValue (snd r) ''room-type'' = '''') ''room-type''
                        ''Please select a room type.'' r)"
  by (auto simp: rule_roomType_def field_eq fieldValue_def fail_eq failIf_False)

lemma rule_checkin_eq:
  "elements (snd r) ''checkin'' \<noteq> None \<Longrightarrow>
   rule_checkin r = Inr (failIf (fieldValue (snd r) ''checkin'' = '''') ''checkin''
                        ''Check-in date is required.'' r)"
  by (auto simp: rule_checkin_def field_eq fieldValue_def fail_eq failIf_False)

lemma rule_checkout_eq:
  "elements (snd r) ''checkout'' \<noteq> None \<Longrightarrow>
   rule_checkout r = Inr (failIf (fieldValue (snd r) ''checkout'' = '''') ''checkout''
                        ''Check-out date is required.'' r)"
  by (auto simp: rule_checkout_def field_eq fieldValue_def fail_eq failIf_False)

lemma rule_guests_eq:
  "elements (snd r) ''guests'' \<noteq> None \<Longrightarrow>
   rule_guests r = Inr (failIf (fieldValue (snd r) ''guests'' = '''') ''guests''
                        ''Please select the number of guests.'' r)"
  by (auto simp: rule_guests_def field_eq fieldValue_def fail_eq failIf_False)

lemma rule_dates_eq:
  "elements (snd r) ''checkin'' \<noteq> None \<Longrightarrow> elements (snd r) ''checkout'' \<noteq> None \<Longrightarrow>
   rule_dates e r =
     Inr (failIf (both_dates (snd r) \<and> checkout_not_after e (snd r)) ''checkout''
            ''Check-out date must be after the check-in date.''
            (failIf (both_dates (snd r) \<and> checkin_past e (snd r)) ''checkin''
               ''Check-in date cannot be in the past.'' r))"
  by (auto simp: rule_dates_def field_eq fieldValue_def fail_eq failIf_False Let_def
        both_dates_def checkin_past_def checkout_not_after_def)

lemma rule_contact_name_eq:
  "elements (snd r) ''contact-name'' \<noteq> None \<Longrightarrow>
   rule_contact_name r = Inr (failIf (trim (fieldValue (snd r) ''contact-name'') = '''')
                        ''contact-name'' ''Your Name is required.'' r)"
  by (auto simp: rule_contact_name_def field_eq fieldValue_def fail_eq failIf_False)

lemma rule_contact_email_eq:
  "elements (snd r) ''contact-email'' \<noteq> None \<Longrightarrow>
   rule_contact_email r =
     Inr (failIf (trim (fieldValue (snd r) ''contact-email'') = '''' \<or>
                  \<not> validateEmail (fieldValue (snd r) ''contact-email'')) ''contact-email''
            (email_message (fieldValue (snd r) ''contact-email'')) r)"
  by (auto simp: rule_contact_email_def field_eq fieldValue_def fail_eq failIf_False
        email_message_def)

lemma rule_subject_eq:
  "elements (snd r) ''subject'' \<noteq> None \<Longrightarrow>
   rule_subject r = Inr (failIf (trim (fieldValue (snd r) ''subject'') = '''') ''subject''
                        ''Subject is required.'' r)"
  by (auto simp: rule_subject_def field_eq fieldValue_def fail_eq failIf_False)

lemma rule_message_eq:
  "elements (snd r) ''message'' \<noteq> None \<Longrightarrow>
   rule_message r = Inr (failIf (trim (fieldValue (snd r) ''message'') = '''') ''message''
                        ''Message is required.'' r)"
  by (auto simp: rule_message_def field_eq fieldValue_def fail_eq failIf_False)

text \<open>
  On a page that has the form, the success message and the fields, no statement of the
  handler faults, and every rule runs on the values that were submitted: the handler is
  the chain of its rules followed by the closing lines.
\<close>

lemma booking_submit_eq:
  assumes "present s booking_ids"
  shows "booking_submit e s =
           finish_submit ''booking-form'' ''booking-message''
             ''Booking confirmed! We will contact you shortly.'' (booking_checked e s)"
proof -
  from assms have p: "elements s ''booking-form'' \<noteq> None" "elements s ''booking-message'' \<noteq> None"
    "elements s ''name'' \<noteq> None" "elements s ''email'' \<noteq> None"
    "elements s ''country-code'' \<noteq> None" "elements s ''phone'' \<noteq> None"
    "elements s ''room-type'' \<noteq> None" "elements s ''checkin'' \<noteq> None"
    "elements s ''checkout'' \<noteq> None" "elements s ''guests'' \<noteq> None"
    by (simp_all add: present_def booking_ids_def)
  show ?thesis
    unfolding booking_submit_def booking_checked_def
    by (simp add: begin_submit_eq p rule_name_eq rule_email_eq rule_countryCode_eq
          rule_phone_eq rule_roomType_eq rule_checkin_eq rule_checkout_eq rule_dates_eq
          rule_guests_eq)
qed

lemma contact_submit_eq:
  assumes "present s contact_ids"
  shows "contact_submit s =
           finish_submit ''contact-form'' ''contact-message''
             ''Thank you! Your message has been sent.'' (contact_checked s)"
proof -
  from assms have p: "elements s ''contact-form'' \<noteq> None" "elements s ''contact-message'' \<noteq> None"
    "elements s ''contact-name'' \<noteq> None" "elements s ''contact-email'' \<noteq> None"
    "elements s ''subject'' \<noteq> None" "elements s ''message'' \<noteq> None"
    by (simp_all add: present_def contact_ids_def)
  show ?thesis
    unfolding contact_submit_def contact_checked_def
    by (simp add: begin_submit_eq p rule_contact_name_eq rule_contact_email_eq rule_subject_eq
          rule_message_eq)
qed


section \<open>What a submit leaves on the page\<close>

lemma finish_submit_eq:
  "elements (snd r) msg \<noteq> None \<Longrightarrow>
   finish_submit form msg text r =
     Inr (if fst r then (True, succeeded form msg text (snd r)) else r)"
  by (auto simp: finish_submit_def field_eq succeeded_def)

lemma elements_succeeded:
  "elements (succeeded form msg text s) k =
     map_option
       (\<lambda>e. if parentForm (if k = msg
                            then e\<lparr>textContent := text, classes := [''form-message'', ''success''],
                                   display := ''block''\<rparr> else e) = Some form
             then (if k = msg
                   then e\<lparr>textContent := text, classes := [''form-message'', ''success''],
                          display := ''block''\<rparr> else e)
                  \<lparr>val := defaultValue e\<rparr>
             else (if k = msg
                   then e\<lparr>textContent := text, classes := [''form-message'', ''success''],
                          display := ''block''\<rparr> else e))
       (elements s k)"
  by (cases "elements s k")
     (simp_all add: succeeded_def setTimeout_def form_reset_def elements_modify)

lemma timers_succeeded:
  "timers (succeeded form msg text s) = timers s @ [(5000, HideElement msg)]"
  by (simp add: succeeded_def setTimeout_def form_reset_def)

lemma error_shown_succeeded:
  "k @ ''-error'' \<noteq> msg \<Longrightarrow> error_shown (succeeded form msg text s) k = error_shown s k"
  by (cases "elements s (k @ ''-error'')") (simp_all add: error_shown_def elements_succeeded)

lemma error_shown_failIf:
  "error_shown (snd (failIf c i m r)) k =
     (if c \<and> k = i \<and> elements (snd r) (k @ ''-error'') \<noteq> None then Some m
      else error_shown (snd r) k)"
  by (cases "elements (snd r) (k @ ''-error'')") (auto simp: error_shown_def elements_failIf)

lemma error_shown_started:
  "has_error_element s form k \<Longrightarrow> error_shown (started form msg s) k = None"
  by (cases "elements s (k @ ''-error'')")
     (simp_all add: has_error_element_def error_shown_def elements_started)

lemma errors_in_form_booking:
  "errors_in_form s form booking_error_fields \<longleftrightarrow>
     has_error_element s form ''name'' \<and> has_error_element s form ''email'' \<and>
     has_error_element s form ''phone'' \<and> has_error_element s form ''room-type'' \<and>
     has_error_element s form ''checkin'' \<and> has_error_element s form ''checkout'' \<and>
     has_error_element s form ''guests''"
  by (simp add: errors_in_form_def booking_error_fields_def has_error_element_def)

lemma has_error_element_present:
  "has_error_element s form k \<Longrightarrow> elements s (k @ ''-error'') \<noteq> None"
  by (auto simp: has_error_element_def split: option.splits)

lemma fst_booking_checked:
  "fst (booking_checked e s) \<longleftrightarrow>
     \<not> (trim (fieldValue s ''name'') = '''') \<and>
     \<not> (trim (fieldValue s ''email'') = '''' \<or> \<not> validateEmail (fieldValue s ''email'')) \<and>
     \<not> (trim (fieldValue s ''country-code'') = '''') \<and>
     \<not> (trim (fieldValue s ''phone'') = '''' \<or> \<not> validatePhone (fieldValue s ''phone'')) \<and>
     \<not> (fieldValue s ''room-type'' = '''') \<and>
     \<not> (fieldValue s ''checkin'' = '''') \<and>
     \<not> (fieldValue s ''checkout'' = '''') \<and>
     \<not> (both_dates s \<and> checkin_past e s) \<and>
     \<not> (both_dates s \<and> checkout_not_after e s) \<and>
     \<not> (fieldValue s ''guests'' = '''')"
  unfolding booking_checked_def by (simp only: fst_failIf fst_conv) blast

lemma error_shown_booking_checked:
  assumes "errors_in_form s ''booking-form'' booking_error_fields"
  shows "error_shown (snd (booking_checked e s)) ''name'' =
           (if trim (fieldValue s ''name'') = '''' then Some ''Full Name is required.'' else None)"
    and "error_shown (snd (booking_checked e s)) ''email'' =
           (if trim (fieldValue s ''email'') = '''' \<or> \<not> validateEmail (fieldValue s ''email'')
            then Some (email_message (fieldValue s ''email'')) else None)"
    and "error_shown (snd (booking_checked e s)) ''phone'' =
           (if trim (fieldValue s ''phone'') = '''' \<or> \<not> validatePhone (fieldValue s ''phone'')
            then Some (phone_message (fieldValue s ''phone''))
            else if trim (fieldValue s ''country-code'') = ''''
            then Some ''Please select a country code.'' else None)"
    and "error_shown (snd (booking_checked e s)) ''room-type'' =
           (if fieldValue s ''room-type'' = '''' then Some ''Please select a room type.'' else None)"
    and "error_shown (snd (booking_checked e s)) ''checkin'' =
           (if both_dates s \<and> checkin_past e s then Some ''Check-in date cannot be in the past.''
            else if fieldValue s ''checkin'' = '''' then Some ''Check-in date is required.''
            else None)"
    and "error_shown (snd (booking_checked e s)) ''checkout'' =
           (if both_dates s \<and> checkout_not_after e s
            then Some ''Check-out date must be after the check-in date.''
            else if fieldValue s ''checkout'' = '''' then Some ''Check-out date is required.''
            else None)"
    and "error_shown (snd (booking_checked e s)) ''guests'' =
           (if fieldValue s ''guests'' = '''' then Some ''Please select the number of guests.''
            else None)"
proof -
  from assms have h: "has_error_element s ''booking-form'' ''name''"
    "has_error_element s ''booking-form'' ''email''"
    "has_error_element s ''booking-form'' ''phone''"
    "has_error_element s ''booking-form'' ''room-type''"
    "has_error_element s ''booking-form'' ''checkin''"
    "has_error_element s ''booking-form'' ''checkout''"
    "has_error_element s ''booking-form'' ''guests''"
    by (simp_all add: errors_in_form_booking)
  note p = h [THEN has_error_element_present, simplified]
  note st = h [THEN error_shown_started]
  show "error_shown (snd (booking_checked e s)) ''name'' =
           (if trim (fieldValue s ''name'') = '''' then Some ''Full Name is required.'' else None)"
    unfolding booking_checked_def
    by (simp add: error_shown_failIf st p cong del: if_weak_cong)
  show "error_shown (snd (booking_checked e s)) ''email'' =
           (if trim (fieldValue s ''email'') = '''' \<or> \<not> validateEmail (fieldValue s ''email'')
            then Some (email_message (fieldValue s ''email'')) else None)"
    unfolding booking_checked_def
    by (simp add: error_shown_failIf st p cong del: if_weak_cong)
  show "error_shown (snd (booking_checked e s)) ''phone'' =
           (if trim (fieldValue s ''phone'') = '''' \<or> \<not> validatePhone (fieldValue s ''phone'')
            then Some (phone_message (fieldValue s ''phone''))
            else if trim (fieldValue s ''country-code'') = ''''
            then Some ''Please select a country code.'' else None)"
    unfolding booking_checked_def
    by (simp add: error_shown_failIf st p cong del: if_weak_cong)
  show "error_shown (snd (booking_checked e s)) ''room-type'' =
           (if fieldValue s ''room-type'' = '''' then Some ''Please select a room type.'' else None)"
    unfolding booking_checked_def
    by (simp add: error_shown_failIf st p cong del: if_weak_cong)
  show "error_shown (snd (booking_checked e s)) ''checkin'' =
           (if both_dates s \<and> checkin_past e s then Some ''Check-in date cannot be in the past.''
            else if fieldValue s ''checkin'' = '''' then Some ''Check-in date is required.''
            else None)"
    unfolding booking_checked_def
    by (simp add: error_shown_failIf st p cong del: if_weak_cong)
  show "error_shown (snd (booking_checked e s)) ''checkout'' =
           (if both_dates s \<and> checkout_not_after e s
            then Some ''Check-out date must be after the check-in date.''
            else if fieldValue s ''checkout'' = '''' then Some ''Check-out date is required.''
            else None)"
    unfolding booking_checked_def
    by (simp add: error_shown_failIf st p cong del: if_weak_cong)
  show "error_shown (snd (booking_checked e s)) ''guests'' =
           (if fieldValue s ''guests'' = '''' then Some ''Please select the number of guests.''
            else None)"
    unfolding booking_checked_def
    by (simp add: error_shown_failIf st p cong del: if_weak_cong)
qed


section \<open>Dates: the day number grows with the calendar\<close>

lemma number_of_snoc: "number_of (ds @ [c]) = 10 * number_of ds + digit_val c"
  by (simp add: number_of_def)

lemma digit_val_range: "isDigit c \<Longrightarrow> 0 \<le> digit_val c \<and> digit_val c \<le> 9"
  by (auto simp: isDigit_def digit_val_def)

lemma number_of_range:
  "list_all isDigit ds \<Longrightarrow> 0 \<le> number_of ds \<and> number_of ds < 10 ^ length ds"
proof (induction ds rule: rev_induct)
  case Nil
  then show ?case by (simp add: number_of_def)
next
  case (snoc c ds)
  then have ih: "0 \<le> number_of ds" "number_of ds < 10 ^ length ds" and c: "isDigit c"
    by simp_all
  from digit_val_range [OF c] ih show ?case
    by (simp add: number_of_snoc)
qed

lemma monthLengths_nonneg: "\<forall>x\<in>set (monthLengths y). 0 \<le> x"
  by (simp add: monthLengths_def)

lemma length_monthLengths [simp]: "length (monthLengths y) = 12"
  by (simp add: monthLengths_def)

lemma sum_list_monthLengths: "sum_list (monthLengths y) = (if InLeapYear y then 366 else 365)"
  by (simp add: monthLengths_def)

lemma sum_take_mono:
  fixes xs :: "int list"
  assumes "\<forall>x\<in>set xs. 0 \<le> x" and "a \<le> b"
  shows "sum_list (take a xs) \<le> sum_list (take b xs)"
proof -
  from assms(2) have "take b xs = take a xs @ take (b - a) (drop a xs)"
    by (metis le_add_diff_inverse take_add)
  moreover have "0 \<le> sum_list (take (b - a) (drop a xs))"
    using assms(1) by (auto intro!: sum_list_nonneg dest!: in_set_takeD in_set_dropD)
  ultimately show ?thesis by simp
qed

lemma sum_take_Suc:
  fixes xs :: "int list"
  shows "k < length xs \<Longrightarrow> sum_list (take (Suc k) xs) = sum_list (take k xs) + xs ! k"
  by (simp add: take_Suc_conv_app_nth)

lemma div_step:
  fixes a n :: int
  assumes "0 < n"
  shows "(a + 1) div n = a div n + (if (a + 1) mod n = 0 then 1 else 0)"
proof (cases "a mod n + 1 < n")
  case True
  have r: "0 \<le> a mod n" using assms by simp
  have eq: "a + 1 = n * (a div n) + (a mod n + 1)" by simp
  have d: "(a + 1) div n = a div n"
    by (rule int_div_pos_eq [OF eq]) (use r True in simp_all)
  have m: "(a + 1) mod n = a mod n + 1"
    by (rule int_mod_pos_eq [OF eq]) (use r True in simp_all)
  from d m r show ?thesis by simp
next
  case False
  have "a mod n < n" using assms by simp
  with False have r: "a mod n + 1 = n" by simp
  have "a + 1 = n * (a div n) + (a mod n + 1)" by simp
  with r have eq: "a + 1 = n * (a div n + 1) + 0" by (simp add: algebra_simps)
  have d: "(a + 1) div n = a div n + 1"
    by (rule int_div_pos_eq [OF eq]) (use assms in simp_all)
  have m: "(a + 1) mod n = 0"
    by (rule int_mod_pos_eq [OF eq]) (use assms in simp_all)
  from d m show ?thesis by simp
qed

lemma mod4_shift: "(y - 1968) mod 4 = y mod 4" for y :: int
proof -
  have "y - 1968 = y + 4 * (- 492)" by simp
  then show ?thesis by (simp only: mod_mult_self2)
qed
lemma mod100_shift: "(y - 1900) mod 100 = y mod 100" for y :: int
proof -
  have "y - 1900 = y + 100 * (- 19)" by simp
  then show ?thesis by (simp only: mod_mult_self2)
qed
lemma mod400_shift: "(y - 1600) mod 400 = y mod 400" for y :: int
proof -
  have "y - 1600 = y + 400 * (- 4)" by simp
  then show ?thesis by (simp only: mod_mult_self2)
qed

lemma div4_step: "(y - 1968) div 4 = (y - 1969) div 4 + (if y mod 4 = 0 then 1 else 0)" for y :: int
  using div_step [of 4 "y - 1969"] by (simp add: mod4_shift)
lemma div100_step: "(y - 1900) div 100 = (y - 1901) div 100 + (if y mod 100 = 0 then 1 else 0)" for y :: int
  using div_step [of 100 "y - 1901"] by (simp add: mod100_shift)
lemma div400_step: "(y - 1600) div 400 = (y - 1601) div 400 + (if y mod 400 = 0 then 1 else 0)" for y :: int
  using div_step [of 400 "y - 1601"] by (simp add: mod400_shift)
lemma mod400_100: "y mod 400 = 0 \<Longrightarrow> y mod 100 = 0" for y :: int
  using mod_mod_cancel [of 100 400 y] by simp
lemma mod100_4: "y mod 100 = 0 \<Longrightarrow> y mod 4 = 0" for y :: int
  using mod_mod_cancel [of 4 100 y] by simp

lemma leap_arith:
  fixes A B C Y :: int
  assumes "r \<Longrightarrow> q" and "q \<Longrightarrow> p"
  shows "365 * (Y + 1) + (A + (if p then 1 else 0)) - (B + (if q then 1 else 0)) +
           (C + (if r then 1 else 0)) =
         365 * Y + A - B + C + (if p \<and> (\<not> q \<or> r) then 366 else 365)"
  using assms by auto

lemma DayFromYear_Suc:
  "DayFromYear (y + 1) = DayFromYear y + (if InLeapYear y then 366 else 365)"
proof -
  have sh: "y + 1 - 1969 = y - 1968" "y + 1 - 1901 = y - 1900" "y + 1 - 1601 = y - 1600"
    "y + 1 - 1970 = y - 1970 + 1"
    by simp_all
  have "DayFromYear (y + 1) =
      365 * (y - 1970 + 1) + ((y - 1969) div 4 + (if y mod 4 = 0 then 1 else 0))
        - ((y - 1901) div 100 + (if y mod 100 = 0 then 1 else 0))
        + ((y - 1601) div 400 + (if y mod 400 = 0 then 1 else 0))"
    by (simp only: DayFromYear_def sh div4_step div100_step div400_step)
  also have "\<dots> = 365 * (y - 1970) + (y - 1969) div 4 - (y - 1901) div 100
        + (y - 1601) div 400
        + (if y mod 4 = 0 \<and> (\<not> y mod 100 = 0 \<or> y mod 400 = 0) then 366 else 365)"
    by (rule leap_arith) (rule mod400_100, assumption, rule mod100_4, assumption)
  finally show ?thesis
    by (simp only: DayFromYear_def InLeapYear_def)
qed

lemma DayFromYear_next_le:
  assumes "y2 < y1"
  shows "DayFromYear (y2 + 1) \<le> DayFromYear y1"
proof -
  from assms have "y2 + 1 \<le> y1" by simp
  then show ?thesis
  proof (induction y1 rule: int_ge_induct)
    case base
    show ?case by simp
  next
    case (step i)
    then show ?case by (simp add: DayFromYear_Suc)
  qed
qed

lemma DayFromYear_mono: "y2 \<le> y1 \<Longrightarrow> DayFromYear y2 \<le> DayFromYear y1"
proof (cases "y2 = y1")
  case True
  then show ?thesis by simp
next
  case False
  assume "y2 \<le> y1"
  with False have "y2 < y1" by simp
  from DayFromYear_next_le [OF this] show ?thesis
    by (simp add: DayFromYear_Suc split: if_splits)
qed

lemma MakeDay_valid:
  assumes "valid_ymd (y, m, d)"
  shows "MakeDay y (m - 1) d =
           DayFromYear y + sum_list (take (nat (m - 1)) (monthLengths y)) + d - 1"
proof -
  from assms have "0 \<le> m - 1" "m - 1 < 12" by simp_all
  then have "(m - 1) div 12 = 0" "(m - 1) mod 12 = m - 1" by simp_all
  then show ?thesis by (simp add: MakeDay_def)
qed

lemma day_of_year_range:
  assumes "valid_ymd (y, m, d)"
  shows "0 \<le> sum_list (take (nat (m - 1)) (monthLengths y)) + d - 1"
    and "sum_list (take (nat (m - 1)) (monthLengths y)) + d - 1
           < (if InLeapYear y then 366 else 365)"
proof -
  from assms have "1 \<le> m" "m \<le> 12" and d: "1 \<le> d" "d \<le> monthLengths y ! nat (m - 1)"
    by simp_all
  then have m: "nat (m - 1) < 12" by linarith
  have "0 \<le> sum_list (take (nat (m - 1)) (monthLengths y))"
    using monthLengths_nonneg [of y] by (auto intro!: sum_list_nonneg dest!: in_set_takeD)
  with d show "0 \<le> sum_list (take (nat (m - 1)) (monthLengths y)) + d - 1"
    by simp
  have "sum_list (take (nat (m - 1)) (monthLengths y)) + d
          \<le> sum_list (take (Suc (nat (m - 1))) (monthLengths y))"
    using d m by (simp add: sum_take_Suc)
  also have "\<dots> \<le> sum_list (take 12 (monthLengths y))"
    using m by (intro sum_take_mono monthLengths_nonneg) simp
  also have "\<dots> = (if InLeapYear y then 366 else 365)"
    by (simp add: sum_list_monthLengths)
  finally show "sum_list (take (nat (m - 1)) (monthLengths y)) + d - 1
           < (if InLeapYear y then 366 else 365)"
    by simp
qed



lemma MakeDay_bounds:
  assumes "valid_ymd (y, m, d)" and y: "0 \<le> y" "y \<le> 9999"
  shows "- 719528 \<le> MakeDay y (m - 1) d" and "MakeDay y (m - 1) d < 2932898"
proof -
  have lo: "DayFromYear 0 = - 719528" and hi: "DayFromYear 9999 = 2932532"
    by (simp_all add: DayFromYear_def)
  from DayFromYear_mono [OF y(1)] DayFromYear_mono [OF y(2)] lo hi
  have "- 719528 \<le> DayFromYear y" "DayFromYear y \<le> 2932532" by simp_all
  with day_of_year_range [OF assms(1)]
  show "- 719528 \<le> MakeDay y (m - 1) d" and "MakeDay y (m - 1) d < 2932898"
    by (simp_all add: MakeDay_valid [OF assms(1)] split: if_splits)
qed

text \<open>What \<open>new Date\<close> makes of the value of a date field.\<close>

lemma list_all_takeWhile: "list_all P (takeWhile P xs)"
  by (induction xs) simp_all

lemma three_numbers_digits:
  "three_numbers s = Some (ys, ms, ds) \<Longrightarrow> list_all isDigit ys"
  by (auto simp: three_numbers_def Let_def list_all_takeWhile split: if_splits)

lemma monthLengths_le_31:
  assumes "k < 12"
  shows "monthLengths y ! k \<le> 31"
proof -
  have "\<forall>x\<in>set (monthLengths y). x \<le> 31"
    by (simp add: monthLengths_def)
  moreover from assms have "monthLengths y ! k \<in> set (monthLengths y)"
    by (intro nth_mem) simp
  ultimately show ?thesis by blast
qed

lemma valid_ymd_IsMonth_IsDay:
  assumes "valid_ymd (y, m, d)"
  shows "IsMonth m" and "IsDay d"
proof -
  from assms have m: "1 \<le> m" "m \<le> 12" and d: "1 \<le> d" "d \<le> monthLengths y ! nat (m - 1)"
    by simp_all
  from m show "IsMonth m" by (simp add: IsMonth_def)
  from m have "nat (m - 1) < 12" by linarith
  from monthLengths_le_31 [OF this, of y] d show "IsDay d"
    by (simp add: IsDay_def)
qed

lemma date_value_valid:
  assumes "date_value s = Some (y, m, d)"
  shows "valid_ymd (y, m, d)" and "1 \<le> y"
  using assms by (auto simp: date_value_def Let_def split: option.splits if_splits)


lemma Date_of_string_date_value:
  assumes dv: "date_value s = Some (y, m, d)"
  shows "Date_of_string e s =
           TimeClip (MakeDay y (m - 1) d * msPerDay - (if y < 10000 then 0 else LocalTZA e))"
proof -
  from dv obtain ys ms ds where tn: "three_numbers s = Some (ys, ms, ds)"
    by (auto simp: date_value_def split: option.splits)
  with dv have n: "y = number_of ys" "m = number_of ms" "d = number_of ds"
    and len: "length ys = 4 \<or> 10000 \<le> y" "length ms = 2" "length ds = 2"
    by (auto simp: date_value_def Let_def split: if_splits)
  note v = valid_ymd_IsMonth_IsDay [OF date_value_valid(1) [OF dv]]
  show ?thesis
  proof (cases "length ys = 4")
    case True
    with number_of_range [OF three_numbers_digits [OF tn]] n have "y < 10000"
      by simp
    with True tn n len v show ?thesis
      by (simp add: Date_of_string_def MakeDate_def)
  next
    case False
    with len have big: "10000 \<le> y" by simp
    then have "\<not> IsDay y" by (simp add: IsDay_def)
    with big v have "legacy_ymd y m d = Some (y, m, d)"
      by (simp add: legacy_ymd_def)
    with False big tn n show ?thesis
      by (simp add: Date_of_string_def MakeDate_def UTC_def)
  qed
qed

lemma Date_of_string_iso:
  assumes dv: "date_value s = Some (y, m, d)" and y: "y < 10000"
  shows "Date_of_string e s = Some (MakeDay y (m - 1) d * msPerDay)"
proof -
  from date_value_valid [OF dv] y have "valid_ymd (y, m, d)" "0 \<le> y" "y \<le> 9999"
    by simp_all
  from MakeDay_bounds [OF this]
  have "\<bar>MakeDay y (m - 1) d * 86400000\<bar> \<le> 8640000000000000"
    by simp
  with y show ?thesis
    by (simp add: Date_of_string_date_value [OF dv] TimeClip_def msPerDay_def)
qed

text \<open>
  Every date value up to the year 275759 gives a valid \<open>Date\<close> in a time zone at most a
  day from UTC (the range of \<open>Date\<close> ends on 13 September 275760).
\<close>

lemma Date_of_string_defined:
  assumes dv: "date_value s = Some (y, m, d)" and y: "y \<le> 275759"
    and zone: "\<bar>LocalTZA e\<bar> \<le> msPerDay"
  shows "Date_of_string e s \<noteq> None"
proof -
  note v = date_value_valid [OF dv]
  have lo: "DayFromYear 1 = - 719162" and hi: "DayFromYear 275759 = 99999379"
    by (simp_all add: DayFromYear_def)
  from DayFromYear_mono [OF v(2)] DayFromYear_mono [OF y] lo hi
  have "- 719162 \<le> DayFromYear y" "DayFromYear y \<le> 99999379" by simp_all
  with day_of_year_range [OF v(1)]
  have "- 719162 \<le> MakeDay y (m - 1) d" "MakeDay y (m - 1) d < 99999745"
    by (simp_all add: MakeDay_valid [OF v(1)] split: if_splits)
  moreover have "\<bar>M * 86400000 - z\<bar> \<le> 8640000000000000"
    if "- 719162 \<le> M" "M < 99999745" "\<bar>z\<bar> \<le> 86400000" for M z :: int
    using that by linarith
  ultimately
  have "\<bar>MakeDay y (m - 1) d * 86400000 - (if y < 10000 then 0 else LocalTZA e)\<bar>
          \<le> 8640000000000000"
    using zone by (simp add: msPerDay_def)
  then show ?thesis
    by (simp add: Date_of_string_date_value [OF dv] TimeClip_def msPerDay_def)
qed



section \<open>Fields, the success message and the timer\<close>

lemma inForm_failIf [simp]: "inForm (snd (failIf c i m r)) form k = inForm (snd r) form k"
  by (cases "elements (snd r) k") (simp_all add: inForm_def elements_failIf)

lemma defaultOf_failIf [simp]: "defaultOf (snd (failIf c i m r)) k = defaultOf (snd r) k"
  by (cases "elements (snd r) k") (simp_all add: defaultOf_def elements_failIf)

lemma inForm_started [simp]: "inForm (started f msg s) form k = inForm s form k"
  by (cases "elements s k") (simp_all add: inForm_def elements_started)

lemma defaultOf_started [simp]: "defaultOf (started f msg s) k = defaultOf s k"
  by (cases "elements s k") (simp_all add: defaultOf_def elements_started)

lemma fieldValue_succeeded:
  "fieldValue (succeeded form msg text s) k =
     (if inForm s form k then defaultOf s k else fieldValue s k)"
  by (cases "elements s k")
     (simp_all add: fieldValue_def inForm_def defaultOf_def elements_succeeded)

lemma displayOf_failIf:
  "k \<noteq> i @ ''-error'' \<Longrightarrow> displayOf (snd (failIf c i m r)) k = displayOf (snd r) k"
  by (cases "elements (snd r) k") (simp_all add: displayOf_def elements_failIf)

lemma textOf_failIf:
  "k \<noteq> i @ ''-error'' \<Longrightarrow> textOf (snd (failIf c i m r)) k = textOf (snd r) k"
  by (cases "elements (snd r) k") (simp_all add: textOf_def elements_failIf)

lemma displayOf_started:
  "elements s msg \<noteq> None \<Longrightarrow> displayOf (started form msg s) msg = Some ''none''"
  by (cases "elements s msg") (simp_all add: displayOf_def elements_started)

lemma displayOf_succeeded:
  "elements s msg \<noteq> None \<Longrightarrow> displayOf (succeeded form msg text s) msg = Some ''block''"
  by (cases "elements s msg") (simp_all add: displayOf_def elements_succeeded)

lemma textOf_succeeded:
  "elements s msg \<noteq> None \<Longrightarrow> textOf (succeeded form msg text s) msg = Some text"
  by (cases "elements s msg") (simp_all add: textOf_def elements_succeeded)

lemma present_succeeded [simp]:
  "(elements (succeeded form msg text s) k = None) = (elements s k = None)"
  by (simp add: elements_succeeded)

text \<open>Callbacks only hide: once an element is hidden, running more of them keeps it hidden.\<close>

lemma displayOf_run_callback_hidden:
  "displayOf s k = Some ''none'' \<Longrightarrow> displayOf (run_callback c s) k = Some ''none''"
  by (cases c; cases "elements s k") (auto simp: displayOf_def elements_modify)

lemma displayOf_run_callback_hide:
  "elements s k \<noteq> None \<Longrightarrow> displayOf (run_callback (HideElement k) s) k = Some ''none''"
  by (cases "elements s k") (simp_all add: displayOf_def elements_modify)

lemma present_run_callback [simp]:
  "(elements (run_callback c s) k = None) = (elements s k = None)"
  by (cases c) (simp add: elements_modify)

lemma present_foldl_run [simp]:
  "(elements (foldl (\<lambda>s' dc. run_callback (snd dc) s') s cs) k = None) = (elements s k = None)"
  by (induction cs arbitrary: s) simp_all

lemma displayOf_foldl_hidden:
  "displayOf s k = Some ''none'' \<Longrightarrow>
   displayOf (foldl (\<lambda>s' dc. run_callback (snd dc) s') s cs) k = Some ''none''"
  by (induction cs arbitrary: s) (simp_all add: displayOf_run_callback_hidden)

lemma displayOf_foldl_hide:
  assumes "(d, HideElement k) \<in> set cs" and "elements s k \<noteq> None"
  shows "displayOf (foldl (\<lambda>s' dc. run_callback (snd dc) s') s cs) k = Some ''none''"
  using assms
proof (induction cs arbitrary: s)
  case Nil
  then show ?case by simp
next
  case (Cons c cs)
  show ?case
  proof (cases "c = (d, HideElement k)")
    case True
    from True displayOf_run_callback_hide [OF Cons.prems(2)]
    have "displayOf (run_callback (snd c) s) k = Some ''none''"
      by simp
    then show ?thesis
      by (simp add: displayOf_foldl_hidden)
  next
    case False
    with Cons.prems have "(d, HideElement k) \<in> set cs" "elements (run_callback (snd c) s) k \<noteq> None"
      by simp_all
    from Cons.IH [OF this] show ?thesis by simp
  qed
qed

lemma displayOf_elapse_hide:
  assumes "(d, HideElement k) \<in> set (timers s)" and "d \<le> t" and "elements s k \<noteq> None"
  shows "displayOf (elapse t s) k = Some ''none''"
proof -
  from assms(1,2) have "(d, HideElement k) \<in> set (sort_key fst (filter (\<lambda>dc. fst dc \<le> t) (timers s)))"
    by simp
  moreover from assms(3)
  have "elements (s\<lparr>timers := map (\<lambda>dc. (fst dc - t, snd dc)) (filter (\<lambda>dc. t < fst dc) (timers s))\<rparr>) k \<noteq> None"
    by simp
  ultimately show ?thesis
    unfolding elapse_def by (rule displayOf_foldl_hide)
qed

text \<open>The run after all rules of the booking handler, seen from the page.\<close>

lemma fieldValue_booking_checked [simp]:
  "fieldValue (snd (booking_checked e s)) k = fieldValue s k"
  by (simp add: booking_checked_def)

lemma inForm_booking_checked [simp]:
  "inForm (snd (booking_checked e s)) form k = inForm s form k"
  by (simp add: booking_checked_def)

lemma defaultOf_booking_checked [simp]:
  "defaultOf (snd (booking_checked e s)) k = defaultOf s k"
  by (simp add: booking_checked_def)

lemma timers_booking_checked [simp]: "timers (snd (booking_checked e s)) = timers s"
  by (simp add: booking_checked_def)

lemma present_booking_checked [simp]:
  "(elements (snd (booking_checked e s)) k = None) = (elements s k = None)"
  by (simp add: booking_checked_def)

lemma displayOf_message_booking_checked:
  "elements s ''booking-message'' \<noteq> None \<Longrightarrow>
   displayOf (snd (booking_checked e s)) ''booking-message'' = Some ''none''"
  by (simp add: booking_checked_def displayOf_failIf displayOf_started)

lemma fieldValue_contact_checked [simp]:
  "fieldValue (snd (contact_checked s)) k = fieldValue s k"
  by (simp add: contact_checked_def)

lemma timers_contact_checked [simp]: "timers (snd (contact_checked s)) = timers s"
  by (simp add: contact_checked_def)

lemma present_contact_checked [simp]:
  "(elements (snd (contact_checked s)) k = None) = (elements s k = None)"
  by (simp add: contact_checked_def)

lemma displayOf_message_contact_checked:
  "elements s ''contact-message'' \<noteq> None \<Longrightarrow>
   displayOf (snd (contact_checked s)) ''contact-message'' = Some ''none''"
  by (simp add: contact_checked_def displayOf_failIf displayOf_started)

lemma fst_contact_checked:
  "fst (contact_checked s) \<longleftrightarrow>
     \<not> (trim (fieldValue s ''contact-name'') = '''') \<and>
     \<not> (trim (fieldValue s ''contact-email'') = '''' \<or>
         \<not> validateEmail (fieldValue s ''contact-email'')) \<and>
     \<not> (trim (fieldValue s ''subject'') = '''') \<and>
     \<not> (trim (fieldValue s ''message'') = '''')"
  unfolding contact_checked_def by (simp only: fst_failIf fst_conv) blast

lemma error_shown_contact_checked:
  assumes "errors_in_form s ''contact-form'' contact_fields"
  shows "error_shown (snd (contact_checked s)) ''contact-name'' =
           (if trim (fieldValue s ''contact-name'') = '''' then Some ''Your Name is required.''
            else None)"
    and "error_shown (snd (contact_checked s)) ''contact-email'' =
           (if trim (fieldValue s ''contact-email'') = '''' \<or>
               \<not> validateEmail (fieldValue s ''contact-email'')
            then Some (email_message (fieldValue s ''contact-email'')) else None)"
    and "error_shown (snd (contact_checked s)) ''subject'' =
           (if trim (fieldValue s ''subject'') = '''' then Some ''Subject is required.'' else None)"
    and "error_shown (snd (contact_checked s)) ''message'' =
           (if trim (fieldValue s ''message'') = '''' then Some ''Message is required.'' else None)"
proof -
  from assms have h: "has_error_element s ''contact-form'' ''contact-name''"
    "has_error_element s ''contact-form'' ''contact-email''"
    "has_error_element s ''contact-form'' ''subject''"
    "has_error_element s ''contact-form'' ''message''"
    by (simp_all add: errors_in_form_def contact_fields_def has_error_element_def)
  note p = h [THEN has_error_element_present, simplified]
  note st = h [THEN error_shown_started]
  show "error_shown (snd (contact_checked s)) ''contact-name'' =
           (if trim (fieldValue s ''contact-name'') = '''' then Some ''Your Name is required.''
            else None)"
    unfolding contact_checked_def
    by (simp add: error_shown_failIf st p cong del: if_weak_cong)
  show "error_shown (snd (contact_checked s)) ''contact-email'' =
           (if trim (fieldValue s ''contact-email'') = '''' \<or>
               \<not> validateEmail (fieldValue s ''contact-email'')
            then Some (email_message (fieldValue s ''contact-email'')) else None)"
    unfolding contact_checked_def
    by (simp add: error_shown_failIf st p cong del: if_weak_cong)
  show "error_shown (snd (contact_checked s)) ''subject'' =
           (if trim (fieldValue s ''subject'') = '''' then Some ''Subject is required.'' else None)"
    unfolding contact_checked_def
    by (simp add: error_shown_failIf st p cong del: if_weak_cong)
  show "error_shown (snd (contact_checked s)) ''message'' =
           (if trim (fieldValue s ''message'') = '''' then Some ''Message is required.'' else None)"
    unfolding contact_checked_def
    by (simp add: error_shown_failIf st p cong del: if_weak_cong)
qed


section \<open>The outcome of a submit\<close>

lemma fst_outcome [simp]: "fst (outcome form msg text r) = fst r"
  by (simp add: outcome_def)

lemma snd_outcome_invalid: "\<not> fst r \<Longrightarrow> snd (outcome form msg text r) = snd r"
  by (simp add: outcome_def)

lemma snd_outcome_valid:
  "fst r \<Longrightarrow> snd (outcome form msg text r) = succeeded form msg text (snd r)"
  by (simp add: outcome_def)

lemma error_shown_outcome:
  "k @ ''-error'' \<noteq> msg \<Longrightarrow>
   error_shown (snd (outcome form msg text r)) k = error_shown (snd r) k"
  by (simp add: outcome_def error_shown_succeeded)

lemma present_outcome [simp]:
  "(elements (snd (outcome form msg text r)) k = None) = (elements (snd r) k = None)"
  by (simp add: outcome_def)

lemma booking_submit_outcome:
  assumes "present s booking_ids"
  shows "booking_submit e s =
           Inr (outcome ''booking-form'' ''booking-message''
                  ''Booking confirmed! We will contact you shortly.'' (booking_checked e s))"
proof -
  from assms have "elements s ''booking-message'' \<noteq> None"
    by (simp add: present_def booking_ids_def)
  then have "elements (snd (booking_checked e s)) ''booking-message'' \<noteq> None"
    by simp
  from finish_submit_eq [OF this] show ?thesis
    by (simp add: booking_submit_eq [OF assms] outcome_def)
qed

lemma contact_submit_outcome:
  assumes "present s contact_ids"
  shows "contact_submit s =
           Inr (outcome ''contact-form'' ''contact-message''
                  ''Thank you! Your message has been sent.'' (contact_checked s))"
proof -
  from assms have "elements s ''contact-message'' \<noteq> None"
    by (simp add: present_def contact_ids_def)
  then have "elements (snd (contact_checked s)) ''contact-message'' \<noteq> None"
    by simp
  from finish_submit_eq [OF this] show ?thesis
    by (simp add: contact_submit_eq [OF assms] outcome_def)
qed

lemma error_shown_booking_outcome:
  "k @ ''-error'' \<noteq> ''booking-message'' \<Longrightarrow>
   error_shown (snd (outcome ''booking-form'' ''booking-message'' text (booking_checked e s))) k =
     error_shown (snd (booking_checked e s)) k"
  by (rule error_shown_outcome)

text \<open>
  Claim C3, as amended. On a page that has the elements the script uses, a submit of the
  booking form runs every rule on the submitted values, whatever the other rules found
  (the two date comparisons run when both dates are filled in). \<open>isValid\<close> ends true
  exactly when no rule fails, and afterwards each error element shows the message of the
  last failing rule that wrote to it: the name, email, room type and guests elements
  show their rule's message exactly when it fails; the check-in and check-out elements
  show the required message or the comparison's; and the phone element shows the phone
  rule's message when that rule fails, and the country code's message only when the
  country code is missing and the phone number is fine.
\<close>

theorem booking_submit_runs_every_rule:
  assumes "present s booking_ids"
    and "errors_in_form s ''booking-form'' booking_error_fields"
  shows "\<exists>ok s'. booking_submit e s = Inr (ok, s') \<and>
    (ok \<longleftrightarrow>
       \<not> (trim (fieldValue s ''name'') = '''') \<and>
       \<not> (trim (fieldValue s ''email'') = '''' \<or> \<not> validateEmail (fieldValue s ''email'')) \<and>
       \<not> (trim (fieldValue s ''country-code'') = '''') \<and>
       \<not> (trim (fieldValue s ''phone'') = '''' \<or> \<not> validatePhone (fieldValue s ''phone'')) \<and>
       \<not> (fieldValue s ''room-type'' = '''') \<and>
       \<not> (fieldValue s ''checkin'' = '''') \<and>
       \<not> (fieldValue s ''checkout'' = '''') \<and>
       \<not> (both_dates s \<and> checkin_past e s) \<and>
       \<not> (both_dates s \<and> checkout_not_after e s) \<and>
       \<not> (fieldValue s ''guests'' = '''')) \<and>
    error_shown s' ''name'' =
      (if trim (fieldValue s ''name'') = '''' then Some ''Full Name is required.'' else None) \<and>
    error_shown s' ''email'' =
      (if trim (fieldValue s ''email'') = '''' then Some ''Email Address is required.''
       else if \<not> validateEmail (fieldValue s ''email'')
       then Some ''Please enter a valid email (e.g., name@example.com).'' else None) \<and>
    error_shown s' ''phone'' =
      (if trim (fieldValue s ''phone'') = '''' then Some ''Phone Number is required.''
       else if \<not> validatePhone (fieldValue s ''phone'')
       then Some ''Phone Number must be exactly 10 digits.''
       else if trim (fieldValue s ''country-code'') = ''''
       then Some ''Please select a country code.'' else None) \<and>
    error_shown s' ''room-type'' =
      (if fieldValue s ''room-type'' = '''' then Some ''Please select a room type.'' else None) \<and>
    error_shown s' ''checkin'' =
      (if both_dates s \<and> checkin_past e s then Some ''Check-in date cannot be in the past.''
       else if fieldValue s ''checkin'' = '''' then Some ''Check-in date is required.''
       else None) \<and>
    error_shown s' ''checkout'' =
      (if both_dates s \<and> checkout_not_after e s
       then Some ''Check-out date must be after the check-in date.''
       else if fieldValue s ''checkout'' = '''' then Some ''Check-out date is required.''
       else None) \<and>
    error_shown s' ''guests'' =
      (if fieldValue s ''guests'' = '''' then Some ''Please select the number of guests.''
       else None)"
proof -
  let ?r = "outcome ''booking-form'' ''booking-message''
              ''Booking confirmed! We will contact you shortly.'' (booking_checked e s)"
  have run: "booking_submit e s = Inr (fst ?r, snd ?r)"
    by (simp only: booking_submit_outcome [OF assms(1)] prod.collapse)
  have ok: "fst ?r = fst (booking_checked e s)"
    by simp
  note shown = error_shown_booking_checked [OF assms(2), of e]
  have 1: "error_shown (snd ?r) ''name'' =
      (if trim (fieldValue s ''name'') = '''' then Some ''Full Name is required.'' else None)"
    by (simp add: error_shown_booking_outcome shown(1))
  have 2: "error_shown (snd ?r) ''email'' =
      (if trim (fieldValue s ''email'') = '''' then Some ''Email Address is required.''
       else if \<not> validateEmail (fieldValue s ''email'')
       then Some ''Please enter a valid email (e.g., name@example.com).'' else None)"
    by (simp add: error_shown_booking_outcome shown(2) email_message_def)
  have 3: "error_shown (snd ?r) ''phone'' =
      (if trim (fieldValue s ''phone'') = '''' then Some ''Phone Number is required.''
       else if \<not> validatePhone (fieldValue s ''phone'')
       then Some ''Phone Number must be exactly 10 digits.''
       else if trim (fieldValue s ''country-code'') = ''''
       then Some ''Please select a country code.'' else None)"
    by (simp add: error_shown_booking_outcome shown(3) phone_message_def)
  have 4: "error_shown (snd ?r) ''room-type'' =
      (if fieldValue s ''room-type'' = '''' then Some ''Please select a room type.'' else None)"
    by (simp add: error_shown_booking_outcome shown(4))
  have 5: "error_shown (snd ?r) ''checkin'' =
      (if both_dates s \<and> checkin_past e s then Some ''Check-in date cannot be in the past.''
       else if fieldValue s ''checkin'' = '''' then Some ''Check-in date is required.''
       else None)"
    by (simp add: error_shown_booking_outcome shown(5))
  have 6: "error_shown (snd ?r) ''checkout'' =
      (if both_dates s \<and> checkout_not_after e s
       then Some ''Check-out date must be after the check-in date.''
       else if fieldValue s ''checkout'' = '''' then Some ''Check-out date is required.''
       else None)"
    by (simp add: error_shown_booking_outcome shown(6))
  have 7: "error_shown (snd ?r) ''guests'' =
      (if fieldValue s ''guests'' = '''' then Some ''Please select the number of guests.''
       else None)"
    by (simp add: error_shown_booking_outcome shown(7))
  from run ok fst_booking_checked [of e s] 1 2 3 4 5 6 7 show ?thesis
    by (intro exI [of _ "fst ?r"] exI [of _ "snd ?r"]) (simp only: simp_thms)
qed


text \<open>
  The theorem on a form with an empty name and a five-digit phone number: both messages
  are shown after the one submit.
\<close>

theorem booking_submit_runs_every_rule_witness:
  "present booking_bad_name_phone booking_ids \<and>
   errors_in_form booking_bad_name_phone ''booking-form'' booking_error_fields \<and>
   (\<exists>s'. booking_submit env_utc booking_bad_name_phone = Inr (False, s') \<and>
      error_shown s' ''name'' = Some ''Full Name is required.'' \<and>
      error_shown s' ''phone'' = Some ''Phone Number must be exactly 10 digits.'' \<and>
      error_shown s' ''email'' = None)"
proof -
  have a: "present booking_bad_name_phone booking_ids"
    by code_simp
  have b: "errors_in_form booking_bad_name_phone ''booking-form'' booking_error_fields"
    by code_simp
  have v: "trim (fieldValue booking_bad_name_phone ''name'') = ''''"
    "trim (fieldValue booking_bad_name_phone ''phone'') \<noteq> ''''"
    "\<not> validatePhone (fieldValue booking_bad_name_phone ''phone'')"
    "trim (fieldValue booking_bad_name_phone ''email'') \<noteq> ''''"
    "validateEmail (fieldValue booking_bad_name_phone ''email'')"
    by code_simp+
  from booking_submit_runs_every_rule [OF a b, of env_utc]
  obtain ok s' where "booking_submit env_utc booking_bad_name_phone = Inr (ok, s')"
    and "ok \<longrightarrow> \<not> (trim (fieldValue booking_bad_name_phone ''name'') = '''')"
    and "error_shown s' ''name'' =
      (if trim (fieldValue booking_bad_name_phone ''name'') = ''''
       then Some ''Full Name is required.'' else None)"
    and "error_shown s' ''email'' =
      (if trim (fieldValue booking_bad_name_phone ''email'') = ''''
       then Some ''Email Address is required.''
       else if \<not> validateEmail (fieldValue booking_bad_name_phone ''email'')
       then Some ''Please enter a valid email (e.g., name@example.com).'' else None)"
    and "error_shown s' ''phone'' =
      (if trim (fieldValue booking_bad_name_phone ''phone'') = ''''
       then Some ''Phone Number is required.''
       else if \<not> validatePhone (fieldValue booking_bad_name_phone ''phone'')
       then Some ''Phone Number must be exactly 10 digits.''
       else if trim (fieldValue booking_bad_name_phone ''country-code'') = ''''
       then Some ''Please select a country code.'' else None)"
    by blast
  with v have "booking_submit env_utc booking_bad_name_phone = Inr (False, s') \<and>
      error_shown s' ''name'' = Some ''Full Name is required.'' \<and>
      error_shown s' ''phone'' = Some ''Phone Number must be exactly 10 digits.'' \<and>
      error_shown s' ''email'' = None"
    by simp
  with a b show ?thesis by blast
qed

text \<open>
  Claim C3 as it stands fails where two rules write to one element. With the country
  code not selected and the phone number empty, both rules fail; after the submit the
  phone element shows the phone message and no error element shows
  ``Please select a country code.'' (the list is the country code's own element, which the
  page does not have, then the elements of name, email, phone, room type, check-in,
  check-out and guests).
\<close>

theorem booking_submit_all_messages_counterexample:
  "trim (fieldValue booking_no_country_no_phone ''country-code'') = '''' \<and>
   (case booking_submit env_utc booking_no_country_no_phone of
      Inl _ \<Rightarrow> None
    | Inr r \<Rightarrow> Some (fst r, map (error_shown (snd r)) (''country-code'' # booking_error_fields)))
   = Some (False, [None, None, None, Some ''Phone Number is required.'', None, None, None, None])"
  by code_simp


section \<open>Empty forms, date order, and the success branch\<close>

lemma trim_empty [simp]: "trim '''' = ''''"
  by (simp add: trim_def)

lemma displayOf_booking_outcome_invalid:
  assumes "elements s ''booking-message'' \<noteq> None" and "\<not> fst (booking_checked e s)"
  shows "displayOf (snd (outcome ''booking-form'' ''booking-message'' text (booking_checked e s)))
           ''booking-message'' = Some ''none''"
  using assms by (simp add: snd_outcome_invalid displayOf_message_booking_checked)

lemma displayOf_contact_outcome_invalid:
  assumes "elements s ''contact-message'' \<noteq> None" and "\<not> fst (contact_checked s)"
  shows "displayOf (snd (outcome ''contact-form'' ''contact-message'' text (contact_checked s)))
           ''contact-message'' = Some ''none''"
  using assms by (simp add: snd_outcome_invalid displayOf_message_contact_checked)

lemma booking_empty_submit:
  assumes p: "present s booking_ids"
    and er: "errors_in_form s ''booking-form'' booking_error_fields"
    and em: "\<forall>k\<in>set booking_fields. fieldValue s k = ''''"
  shows "\<exists>s'. booking_submit e s = Inr (False, s') \<and>
      error_shown s' ''name'' = Some ''Full Name is required.'' \<and>
      error_shown s' ''email'' = Some ''Email Address is required.'' \<and>
      error_shown s' ''phone'' = Some ''Phone Number is required.'' \<and>
      error_shown s' ''room-type'' = Some ''Please select a room type.'' \<and>
      error_shown s' ''checkin'' = Some ''Check-in date is required.'' \<and>
      error_shown s' ''checkout'' = Some ''Check-out date is required.'' \<and>
      error_shown s' ''guests'' = Some ''Please select the number of guests.'' \<and>
      displayOf s' ''booking-message'' = Some ''none'' \<and>
      timers s' = timers s"
proof -
  let ?c = "booking_checked e s"
  let ?r = "outcome ''booking-form'' ''booking-message''
              ''Booking confirmed! We will contact you shortly.'' ?c"
  from em have v: "fieldValue s ''name'' = ''''" "fieldValue s ''email'' = ''''"
    "fieldValue s ''country-code'' = ''''" "fieldValue s ''phone'' = ''''"
    "fieldValue s ''room-type'' = ''''" "fieldValue s ''checkin'' = ''''"
    "fieldValue s ''checkout'' = ''''" "fieldValue s ''guests'' = ''''"
    by (simp_all add: booking_fields_def)
  from p have msg: "elements s ''booking-message'' \<noteq> None"
    by (simp add: present_def booking_ids_def)
  have bad: "\<not> fst ?c"
    by (simp add: fst_booking_checked v)
  have run: "booking_submit e s = Inr (False, snd ?r)"
    using bad by (simp add: booking_submit_outcome [OF p] outcome_def prod_eq_iff)
  have nb: "\<not> both_dates s"
    by (simp add: both_dates_def v)
  note shown = error_shown_booking_checked [OF er, of e]
  have "error_shown (snd ?r) ''name'' = Some ''Full Name is required.''"
    "error_shown (snd ?r) ''email'' = Some ''Email Address is required.''"
    "error_shown (snd ?r) ''phone'' = Some ''Phone Number is required.''"
    "error_shown (snd ?r) ''room-type'' = Some ''Please select a room type.''"
    "error_shown (snd ?r) ''checkin'' = Some ''Check-in date is required.''"
    "error_shown (snd ?r) ''checkout'' = Some ''Check-out date is required.''"
    "error_shown (snd ?r) ''guests'' = Some ''Please select the number of guests.''"
    by (simp_all add: error_shown_booking_outcome shown v nb email_message_def
          phone_message_def)
  moreover have "displayOf (snd ?r) ''booking-message'' = Some ''none''"
    by (rule displayOf_booking_outcome_invalid [OF msg bad])
  moreover have "timers (snd ?r) = timers s"
    using bad by (simp add: snd_outcome_invalid)
  ultimately show ?thesis
    using run by blast
qed

lemma contact_empty_submit:
  assumes p: "present c contact_ids"
    and er: "errors_in_form c ''contact-form'' contact_fields"
    and em: "\<forall>k\<in>set contact_fields. fieldValue c k = ''''"
  shows "\<exists>c'. contact_submit c = Inr (False, c') \<and>
      error_shown c' ''contact-name'' = Some ''Your Name is required.'' \<and>
      error_shown c' ''contact-email'' = Some ''Email Address is required.'' \<and>
      error_shown c' ''subject'' = Some ''Subject is required.'' \<and>
      error_shown c' ''message'' = Some ''Message is required.'' \<and>
      displayOf c' ''contact-message'' = Some ''none'' \<and>
      timers c' = timers c"
proof -
  let ?c = "contact_checked c"
  let ?r = "outcome ''contact-form'' ''contact-message''
              ''Thank you! Your message has been sent.'' ?c"
  from em have v: "fieldValue c ''contact-name'' = ''''" "fieldValue c ''contact-email'' = ''''"
    "fieldValue c ''subject'' = ''''" "fieldValue c ''message'' = ''''"
    by (simp_all add: contact_fields_def)
  from p have msg: "elements c ''contact-message'' \<noteq> None"
    by (simp add: present_def contact_ids_def)
  have bad: "\<not> fst ?c"
    by (simp add: fst_contact_checked v)
  have run: "contact_submit c = Inr (False, snd ?r)"
    using bad by (simp add: contact_submit_outcome [OF p] outcome_def prod_eq_iff)
  note shown = error_shown_contact_checked [OF er]
  have "error_shown (snd ?r) ''contact-name'' = Some ''Your Name is required.''"
    "error_shown (snd ?r) ''contact-email'' = Some ''Email Address is required.''"
    "error_shown (snd ?r) ''subject'' = Some ''Subject is required.''"
    "error_shown (snd ?r) ''message'' = Some ''Message is required.''"
    by (simp_all add: error_shown_outcome shown v email_message_def)
  moreover have "displayOf (snd ?r) ''contact-message'' = Some ''none''"
    by (rule displayOf_contact_outcome_invalid [OF msg bad])
  moreover have "timers (snd ?r) = timers c"
    using bad by (simp add: snd_outcome_invalid)
  ultimately show ?thesis
    using run by blast
qed

text \<open>
  Claim C4 as it stands fails for the country code of the booking form. With every field
  empty the country code rule fails too, but its message goes to the phone field's
  element, where the phone rule's message replaces it: after the submit no error is
  shown for the country code (the page has no element for it) and no error element
  shows ``Please select a country code.'' (the list is the country code's own element,
  then the elements of name, email, phone, room type, check-in, check-out and guests).
\<close>

theorem empty_booking_country_code_counterexample:
  "list_all (\<lambda>k. fieldValue booking_empty k = '''') booking_fields \<and>
   (case booking_submit env_utc booking_empty of
      Inl _ \<Rightarrow> None
    | Inr r \<Rightarrow> Some (fst r, map (error_shown (snd r)) (''country-code'' # booking_error_fields)))
   = Some (False,
       [None, Some ''Full Name is required.'', Some ''Email Address is required.'',
        Some ''Phone Number is required.'', Some ''Please select a room type.'',
        Some ''Check-in date is required.'', Some ''Check-out date is required.'',
        Some ''Please select the number of guests.''])"
  by code_simp

text \<open>
  Claim C4, as amended. A submit of the booking form, or of the contact form, with every
  required field empty leaves the success message hidden (no timer is set either) and
  shows an error in every error element of the form: for the contact form those of its
  four fields, for the booking form those of name, email, phone, room type, check-in,
  check-out and guests, each with its field's ``required'' message. The country code has
  no error element of its own; its message is written to the phone field's element and
  replaced there by ``Phone Number is required.''
\<close>

theorem empty_forms_show_errors:
  "(present s booking_ids \<and> errors_in_form s ''booking-form'' booking_error_fields \<and>
    (\<forall>k\<in>set booking_fields. fieldValue s k = '''') \<longrightarrow>
    (\<exists>s'. booking_submit e s = Inr (False, s') \<and>
      error_shown s' ''name'' = Some ''Full Name is required.'' \<and>
      error_shown s' ''email'' = Some ''Email Address is required.'' \<and>
      error_shown s' ''phone'' = Some ''Phone Number is required.'' \<and>
      error_shown s' ''room-type'' = Some ''Please select a room type.'' \<and>
      error_shown s' ''checkin'' = Some ''Check-in date is required.'' \<and>
      error_shown s' ''checkout'' = Some ''Check-out date is required.'' \<and>
      error_shown s' ''guests'' = Some ''Please select the number of guests.'' \<and>
      displayOf s' ''booking-message'' = Some ''none'' \<and>
      timers s' = timers s)) \<and>
   (present c contact_ids \<and> errors_in_form c ''contact-form'' contact_fields \<and>
    (\<forall>k\<in>set contact_fields. fieldValue c k = '''') \<longrightarrow>
    (\<exists>c'. contact_submit c = Inr (False, c') \<and>
      error_shown c' ''contact-name'' = Some ''Your Name is required.'' \<and>
      error_shown c' ''contact-email'' = Some ''Email Address is required.'' \<and>
      error_shown c' ''subject'' = Some ''Subject is required.'' \<and>
      error_shown c' ''message'' = Some ''Message is required.'' \<and>
      displayOf c' ''contact-message'' = Some ''none'' \<and>
      timers c' = timers c))"
  using booking_empty_submit [of s e] contact_empty_submit [of c] by blast

text \<open>The theorem on the two example pages with all fields empty.\<close>

theorem empty_forms_show_errors_witness:
  "present booking_empty booking_ids \<and>
   errors_in_form booking_empty ''booking-form'' booking_error_fields \<and>
   list_all (\<lambda>k. fieldValue booking_empty k = '''') booking_fields \<and>
   (\<exists>s'. booking_submit env_utc booking_empty = Inr (False, s') \<and>
      error_shown s' ''name'' = Some ''Full Name is required.'' \<and>
      error_shown s' ''phone'' = Some ''Phone Number is required.'' \<and>
      error_shown s' ''guests'' = Some ''Please select the number of guests.'' \<and>
      displayOf s' ''booking-message'' = Some ''none'') \<and>
   present contact_empty contact_ids \<and>
   errors_in_form contact_empty ''contact-form'' contact_fields \<and>
   list_all (\<lambda>k. fieldValue contact_empty k = '''') contact_fields \<and>
   (\<exists>c'. contact_submit contact_empty = Inr (False, c') \<and>
      error_shown c' ''contact-name'' = Some ''Your Name is required.'' \<and>
      error_shown c' ''message'' = Some ''Message is required.'' \<and>
      displayOf c' ''contact-message'' = Some ''none'')"
proof -
  have a: "present booking_empty booking_ids"
    "errors_in_form booking_empty ''booking-form'' booking_error_fields"
    by code_simp+
  have a': "list_all (\<lambda>k. fieldValue booking_empty k = '''') booking_fields"
    by code_simp
  have b: "present contact_empty contact_ids"
    "errors_in_form contact_empty ''contact-form'' contact_fields"
    by code_simp+
  have b': "list_all (\<lambda>k. fieldValue contact_empty k = '''') contact_fields"
    by code_simp
  from a' have a'': "\<forall>k\<in>set booking_fields. fieldValue booking_empty k = ''''"
    by (simp add: list_all_iff)
  from b' have b'': "\<forall>k\<in>set contact_fields. fieldValue contact_empty k = ''''"
    by (simp add: list_all_iff)
  from empty_forms_show_errors [of booking_empty env_utc contact_empty] a a'' b b''
  have "(\<exists>s'. booking_submit env_utc booking_empty = Inr (False, s') \<and>
      error_shown s' ''name'' = Some ''Full Name is required.'' \<and>
      error_shown s' ''phone'' = Some ''Phone Number is required.'' \<and>
      error_shown s' ''guests'' = Some ''Please select the number of guests.'' \<and>
      displayOf s' ''booking-message'' = Some ''none'') \<and>
   (\<exists>c'. contact_submit contact_empty = Inr (False, c') \<and>
      error_shown c' ''contact-name'' = Some ''Your Name is required.'' \<and>
      error_shown c' ''message'' = Some ''Message is required.'' \<and>
      displayOf c' ''contact-message'' = Some ''none'')"
    by blast
  with a a' b b' show ?thesis by blast
qed





text \<open>
  Claim C9. \<open>showError\<close> and \<open>clearError\<close> look the error element up and write to it only
  when it exists: without it they leave the page as it is and raise nothing. So the
  submit handler of a page that lacks a field's error element still runs to its end, and
  that field's error is just not shown.
\<close>

theorem showError_clearError_without_element:
  assumes "elements s (inputId @ ''-error'') = None"
  shows "showError inputId message s = s \<and> clearError inputId s = s \<and>
         (present s booking_ids \<longrightarrow>
            (\<exists>r. booking_submit e s = Inr r \<and> error_shown (snd r) inputId = None))"
proof -
  have 1: "showError inputId message s = s" "clearError inputId s = s"
    using assms by (simp_all add: showError_def clearError_def getElementById_def)
  have 2: "\<exists>r. booking_submit e s = Inr r \<and> error_shown (snd r) inputId = None"
    if "present s booking_ids"
  proof -
    let ?r = "outcome ''booking-form'' ''booking-message''
                ''Booking confirmed! We will contact you shortly.'' (booking_checked e s)"
    from assms have "elements (snd ?r) (inputId @ ''-error'') = None"
      by simp
    then have "error_shown (snd ?r) inputId = None"
      by (simp only: error_shown_def option.case)
    with booking_submit_outcome [OF that, of e] show ?thesis
      by blast
  qed
  from 1 2 show ?thesis by blast
qed

text \<open>
  The theorem on the example page, which has no \<open>country-code-error\<close> element, after a
  submit with the country code missing.
\<close>

theorem showError_clearError_without_element_witness:
  "elements booking_no_country (''country-code'' @ ''-error'') = None \<and>
   showError ''country-code'' ''Please select a country code.'' booking_no_country
     = booking_no_country \<and>
   clearError ''country-code'' booking_no_country = booking_no_country \<and>
   present booking_no_country booking_ids \<and>
   (\<exists>r. booking_submit env_utc booking_no_country = Inr r \<and>
        error_shown (snd r) ''country-code'' = None)"
proof -
  have a: "elements booking_no_country (''country-code'' @ ''-error'') = None"
    by code_simp
  have b: "present booking_no_country booking_ids"
    by code_simp
  from showError_clearError_without_element [OF a, of "''Please select a country code.''" env_utc]
    a b
  show ?thesis by blast
qed

text \<open>
  Claim C10. When the country code is not selected, the message
  ``Please select a country code.'' goes to the phone field's error element; the element
  \<open>country-code-error\<close>, if the page has one, is touched by nothing but the clearing at the
  start of the submit. The phone rule runs afterwards and, when it fails, its message
  replaces the country code's: the phone element shows exactly one of the two.
\<close>

theorem booking_country_code_error_on_phone:
  assumes p: "present s booking_ids"
    and er: "errors_in_form s ''booking-form'' booking_error_fields"
    and cc: "trim (fieldValue s ''country-code'') = ''''"
  shows "\<exists>s'. booking_submit e s = Inr (False, s') \<and>
      error_shown s' ''phone'' =
        (if trim (fieldValue s ''phone'') = '''' then Some ''Phone Number is required.''
         else if \<not> validatePhone (fieldValue s ''phone'')
         then Some ''Phone Number must be exactly 10 digits.''
         else Some ''Please select a country code.'') \<and>
      elements s' ''country-code-error'' =
        elements (started ''booking-form'' ''booking-message'' s) ''country-code-error''"
proof -
  let ?c = "booking_checked e s"
  let ?r = "outcome ''booking-form'' ''booking-message''
              ''Booking confirmed! We will contact you shortly.'' ?c"
  have bad: "\<not> fst ?c"
    by (simp add: fst_booking_checked cc)
  have run: "booking_submit e s = Inr (False, snd ?r)"
    using bad by (simp add: booking_submit_outcome [OF p] outcome_def prod_eq_iff)
  have "error_shown (snd ?r) ''phone'' =
        (if trim (fieldValue s ''phone'') = '''' then Some ''Phone Number is required.''
         else if \<not> validatePhone (fieldValue s ''phone'')
         then Some ''Phone Number must be exactly 10 digits.''
         else Some ''Please select a country code.'')"
    by (simp add: error_shown_booking_outcome error_shown_booking_checked(3) [OF er] cc
          phone_message_def)
  moreover have "elements (snd ?r) ''country-code-error'' =
        elements (started ''booking-form'' ''booking-message'' s) ''country-code-error''"
    using bad
    by (simp add: snd_outcome_invalid booking_checked_def elements_failIf option.map_ident)
  ultimately show ?thesis
    using run by blast
qed

text \<open>
  The theorem on two forms without a country code: with a valid phone number the phone
  element shows the country code's message, with an empty one the phone message.
\<close>

theorem booking_country_code_error_on_phone_witness:
  "present booking_no_country booking_ids \<and>
   errors_in_form booking_no_country ''booking-form'' booking_error_fields \<and>
   trim (fieldValue booking_no_country ''country-code'') = '''' \<and>
   (\<exists>s'. booking_submit env_utc booking_no_country = Inr (False, s') \<and>
      error_shown s' ''phone'' = Some ''Please select a country code.'') \<and>
   present booking_no_country_no_phone booking_ids \<and>
   errors_in_form booking_no_country_no_phone ''booking-form'' booking_error_fields \<and>
   trim (fieldValue booking_no_country_no_phone ''country-code'') = '''' \<and>
   (\<exists>s'. booking_submit env_utc booking_no_country_no_phone = Inr (False, s') \<and>
      error_shown s' ''phone'' = Some ''Phone Number is required.'')"
proof -
  have a: "present booking_no_country booking_ids"
    "errors_in_form booking_no_country ''booking-form'' booking_error_fields"
    "trim (fieldValue booking_no_country ''country-code'') = ''''"
    by code_simp+
  have b: "present booking_no_country_no_phone booking_ids"
    "errors_in_form booking_no_country_no_phone ''booking-form'' booking_error_fields"
    "trim (fieldValue booking_no_country_no_phone ''country-code'') = ''''"
    by code_simp+
  have v: "trim (fieldValue booking_no_country ''phone'') \<noteq> ''''"
    "validatePhone (fieldValue booking_no_country ''phone'')"
    "trim (fieldValue booking_no_country_no_phone ''phone'') = ''''"
    by code_simp+
  from booking_country_code_error_on_phone [OF a, of env_utc] v
  have 1: "\<exists>s'. booking_submit env_utc booking_no_country = Inr (False, s') \<and>
      error_shown s' ''phone'' = Some ''Please select a country code.''"
    by auto
  from booking_country_code_error_on_phone [OF b, of env_utc] v
  have 2: "\<exists>s'. booking_submit env_utc booking_no_country_no_phone = Inr (False, s') \<and>
      error_shown s' ''phone'' = Some ''Phone Number is required.''"
    by auto
  from a b 1 2 show ?thesis by blast
qed


lemma displayOf_elapse_before:
  assumes "list_all (\<lambda>dc. t < fst dc) (timers s)"
  shows "displayOf (elapse t s) k = displayOf s k"
proof -
  from assms have "filter (\<lambda>dc. fst dc \<le> t) (timers s) = []"
    by (auto simp: filter_empty_conv list_all_iff)
  then show ?thesis
    by (simp add: elapse_def displayOf_def)
qed

text \<open>
  Claim C8 as it stands fails on a page that presets a field: \<open>form.reset()\<close> returns a
  control to its default value, not to the empty string. On the valid form whose name
  field is preset to \<open>Guest\<close>, all rules pass, the success branch runs, and the name field
  holds \<open>Guest\<close> afterwards.
\<close>

theorem booking_reset_to_empty_counterexample:
  "present booking_preset booking_ids \<and>
   booking_rules_pass env_utc booking_preset \<and>
   fieldValue booking_preset ''name'' = ''Ann'' \<and>
   (case booking_submit env_utc booking_preset of
      Inl _ \<Rightarrow> None | Inr r \<Rightarrow> Some (fst r, fieldValue (snd r) ''name''))
     = Some (True, ''Guest'')"
  by code_simp

text \<open>
  Claim C8, as amended. When all rules pass, a submit of the booking form shows the
  success message, resets the form, that is, every control of the form returns to its
  default value (the empty string where the page presets none) and nothing else changes
  its value, and sets a timer of 5000 ms; nothing in the script cancels a timer, and
  once 5000 ms have passed the message is hidden again. With no other timer pending the
  message stays visible until then.
\<close>

theorem booking_valid_submit_succeeds:
  assumes p: "present s booking_ids"
    and ok: "booking_rules_pass e s"
  shows "\<exists>s'. booking_submit e s = Inr (True, s') \<and>
      displayOf s' ''booking-message'' = Some ''block'' \<and>
      textOf s' ''booking-message'' = Some ''Booking confirmed! We will contact you shortly.'' \<and>
      (\<forall>k. fieldValue s' k =
            (if inForm s ''booking-form'' k then defaultOf s k else fieldValue s k)) \<and>
      timers s' = timers s @ [(5000, HideElement ''booking-message'')] \<and>
      displayOf (elapse 5000 s') ''booking-message'' = Some ''none'' \<and>
      (timers s = [] \<longrightarrow> (\<forall>t<5000. displayOf (elapse t s') ''booking-message'' = Some ''block''))"
proof -
  let ?c = "booking_checked e s"
  let ?t = "''Booking confirmed! We will contact you shortly.''"
  let ?s' = "succeeded ''booking-form'' ''booking-message'' ?t (snd ?c)"
  from p have msg: "elements (snd ?c) ''booking-message'' \<noteq> None"
    by (simp add: present_def booking_ids_def)
  from ok have good: "fst ?c"
    by (simp add: fst_booking_checked booking_rules_pass_def)
  then have run: "booking_submit e s = Inr (True, ?s')"
    by (simp add: booking_submit_outcome [OF p] outcome_def)
  have shown: "displayOf ?s' ''booking-message'' = Some ''block''"
    by (rule displayOf_succeeded [OF msg])
  have shown_text: "textOf ?s' ''booking-message'' = Some ?t"
    by (rule textOf_succeeded [OF msg])
  have reset: "\<forall>k. fieldValue ?s' k =
      (if inForm s ''booking-form'' k then defaultOf s k else fieldValue s k)"
    by (simp add: fieldValue_succeeded)
  have tm: "timers ?s' = timers s @ [(5000, HideElement ''booking-message'')]"
    by (simp add: timers_succeeded)
  have hidden: "displayOf (elapse 5000 ?s') ''booking-message'' = Some ''none''"
  proof (rule displayOf_elapse_hide)
    show "(5000, HideElement ''booking-message'') \<in> set (timers ?s')"
      by (simp add: tm)
    show "(5000::nat) \<le> 5000" by simp
    from msg show "elements ?s' ''booking-message'' \<noteq> None" by simp
  qed
  have before: "\<forall>t<5000. displayOf (elapse t ?s') ''booking-message'' = Some ''block''"
    if "timers s = []"
  proof (intro allI impI)
    fix t :: nat assume "t < 5000"
    with that have "list_all (\<lambda>dc. t < fst dc) (timers ?s')"
      by (simp add: tm)
    from displayOf_elapse_before [OF this] shown
    show "displayOf (elapse t ?s') ''booking-message'' = Some ''block''"
      by simp
  qed
  from run shown shown_text reset tm hidden before show ?thesis
    by blast
qed

text \<open>
  The theorem on a valid form, submitted on 15 June 2024 for 20 to 22 June, on the page
  without presets (every field is empty afterwards) and on the page that presets the
  name (the name is \<open>Guest\<close> afterwards, the phone field empty).
\<close>

theorem booking_valid_submit_succeeds_witness:
  "present booking_good booking_ids \<and>
   booking_rules_pass env_utc booking_good \<and>
   timers booking_good = [] \<and>
   list_all (\<lambda>k. inForm booking_good ''booking-form'' k \<and> defaultOf booking_good k = '''')
     booking_fields \<and>
   (\<exists>s'. booking_submit env_utc booking_good = Inr (True, s') \<and>
      displayOf s' ''booking-message'' = Some ''block'' \<and>
      list_all (\<lambda>k. fieldValue s' k = '''') booking_fields \<and>
      timers s' = [(5000, HideElement ''booking-message'')] \<and>
      displayOf (elapse 4999 s') ''booking-message'' = Some ''block'' \<and>
      displayOf (elapse 5000 s') ''booking-message'' = Some ''none'') \<and>
   present booking_preset booking_ids \<and>
   booking_rules_pass env_utc booking_preset \<and>
   (\<exists>s'. booking_submit env_utc booking_preset = Inr (True, s') \<and>
      fieldValue s' ''name'' = ''Guest'' \<and> fieldValue s' ''phone'' = '''' \<and>
      displayOf (elapse 5000 s') ''booking-message'' = Some ''none'')"
proof -
  have a: "present booking_good booking_ids"
    "booking_rules_pass env_utc booking_good"
    by code_simp+
  have t: "timers booking_good = []"
    by code_simp
  have f: "list_all (\<lambda>k. inForm booking_good ''booking-form'' k \<and> defaultOf booking_good k = '''')
             booking_fields"
    by code_simp
  from booking_valid_submit_succeeds [OF a]
  obtain s' where "booking_submit env_utc booking_good = Inr (True, s')"
    and "displayOf s' ''booking-message'' = Some ''block''"
    and "\<forall>k. fieldValue s' k =
           (if inForm booking_good ''booking-form'' k then defaultOf booking_good k
            else fieldValue booking_good k)"
    and "timers s' = timers booking_good @ [(5000, HideElement ''booking-message'')]"
    and "displayOf (elapse 5000 s') ''booking-message'' = Some ''none''"
    and "timers booking_good = [] \<longrightarrow>
          (\<forall>t<5000. displayOf (elapse t s') ''booking-message'' = Some ''block'')"
    by blast
  with t f have 1: "booking_submit env_utc booking_good = Inr (True, s') \<and>
      displayOf s' ''booking-message'' = Some ''block'' \<and>
      list_all (\<lambda>k. fieldValue s' k = '''') booking_fields \<and>
      timers s' = [(5000, HideElement ''booking-message'')] \<and>
      displayOf (elapse 4999 s') ''booking-message'' = Some ''block'' \<and>
      displayOf (elapse 5000 s') ''booking-message'' = Some ''none''"
    by (simp add: list_all_iff)
  have b: "present booking_preset booking_ids"
    "booking_rules_pass env_utc booking_preset"
    by code_simp+
  have g: "inForm booking_preset ''booking-form'' ''name''"
    "defaultOf booking_preset ''name'' = ''Guest''"
    "inForm booking_preset ''booking-form'' ''phone''"
    "defaultOf booking_preset ''phone'' = ''''"
    by code_simp+
  from booking_valid_submit_succeeds [OF b]
  obtain s'' where "booking_submit env_utc booking_preset = Inr (True, s'')"
    and "\<forall>k. fieldValue s'' k =
           (if inForm booking_preset ''booking-form'' k then defaultOf booking_preset k
            else fieldValue booking_preset k)"
    and "displayOf (elapse 5000 s'') ''booking-message'' = Some ''none''"
    by blast
  with g have 2: "booking_submit env_utc booking_preset = Inr (True, s'') \<and>
      fieldValue s'' ''name'' = ''Guest'' \<and> fieldValue s'' ''phone'' = '''' \<and>
      displayOf (elapse 5000 s'') ''booking-message'' = Some ''none''"
    by simp
  from a t f 1 b 2 show ?thesis by blast
qed


section \<open>Dates and the time zone\<close>


text \<open>
  When the past-date rule fires, in day numbers. \<open>M\<close> is the day number of the check-in
  value and \<open>T\<close> today's, in local time. At UTC and east of it (less than a day) the rule
  fires exactly for the days before today; west of UTC it fires for today as well.
\<close>

lemma checkin_past_iff:
  assumes ci: "date_value (fieldValue s ''checkin'') = Some (y, m, d)" and y: "y < 10000"
    and clip: "\<bar>Day (LocalTime e (now e)) * msPerDay - LocalTZA e\<bar> \<le> 8640000000000000"
  shows "checkin_past e s \<longleftrightarrow>
           MakeDay y (m - 1) d * msPerDay < Day (LocalTime e (now e)) * msPerDay - LocalTZA e"
  using clip
  by (simp add: checkin_past_def Date_of_string_iso [OF ci y] setHours0_def Date_now_def
        TimeClip_def UTC_def MakeDate_def date_lt_def)

lemma checkin_past_east:
  assumes ci: "date_value (fieldValue s ''checkin'') = Some (y, m, d)" and y: "y < 10000"
    and clip: "\<bar>Day (LocalTime e (now e)) * msPerDay - LocalTZA e\<bar> \<le> 8640000000000000"
    and z: "0 \<le> LocalTZA e" "LocalTZA e < msPerDay"
  shows "checkin_past e s \<longleftrightarrow> MakeDay y (m - 1) d < Day (LocalTime e (now e))"
proof -
  have "M * 86400000 < T * 86400000 - z \<longleftrightarrow> M < T"
    if "0 \<le> z" "z < 86400000" for M T z :: int
    using that by auto
  with z show ?thesis
    unfolding checkin_past_iff [OF ci y clip] by (simp add: msPerDay_def)
qed

lemma checkin_past_west:
  assumes ci: "date_value (fieldValue s ''checkin'') = Some (y, m, d)" and y: "y < 10000"
    and clip: "\<bar>Day (LocalTime e (now e)) * msPerDay - LocalTZA e\<bar> \<le> 8640000000000000"
    and z: "LocalTZA e < 0" "- msPerDay < LocalTZA e"
  shows "checkin_past e s \<longleftrightarrow> MakeDay y (m - 1) d \<le> Day (LocalTime e (now e))"
proof -
  have "M * 86400000 < T * 86400000 - z \<longleftrightarrow> M \<le> T"
    if "z < 0" "- 86400000 < z" for M T z :: int
    using that by auto
  with z show ?thesis
    unfolding checkin_past_iff [OF ci y clip] by (simp add: msPerDay_def)
qed

text \<open>
  Claim C6 on the code. The script reads the check-in value with \<open>new Date(text)\<close>, which
  for a date-only text is midnight UTC, and compares it with local midnight of today.
  West of UTC local midnight is later than midnight UTC of the same calendar day, so a
  check-in on today's date counts as past. At noon of 15 June 2024 in New York, with
  the check-in 2024-06-15 and every field valid, the submit fails with the past-date
  error, although \<open>initBookingForm\<close> has set the field's minimum to that very day; the
  same form at noon of that day at UTC and in Kolkata succeeds.
\<close>

theorem booking_checkin_today_rejected_west_of_utc:
  "ymdString env_new_york (Date_now env_new_york) = ''2024-06-15'' \<and>
   fieldValue booking_from_today ''checkin'' = ''2024-06-15'' \<and>
   (case initBookingForm env_new_york booking_from_today of
      Inl _ \<Rightarrow> None | Inr s' \<Rightarrow> map_option minAttr (elements s' ''checkin''))
     = Some ''2024-06-15'' \<and>
   (case booking_submit env_new_york booking_from_today of
      Inl _ \<Rightarrow> None | Inr r \<Rightarrow> Some (fst r, error_shown (snd r) ''checkin''))
     = Some (False, Some ''Check-in date cannot be in the past.'') \<and>
   ymdString env_utc (Date_now env_utc) = ''2024-06-15'' \<and>
   (case booking_submit env_utc booking_from_today of
      Inl _ \<Rightarrow> None | Inr r \<Rightarrow> Some (fst r, error_shown (snd r) ''checkin''))
     = Some (True, None) \<and>
   ymdString env_kolkata (Date_now env_kolkata) = ''2024-06-15'' \<and>
   (case booking_submit env_kolkata booking_from_today of
      Inl _ \<Rightarrow> None | Inr r \<Rightarrow> Some (fst r, error_shown (snd r) ''checkin''))
     = Some (True, None)"
  by code_simp

text \<open>
  Claim C7 on the code. The change handler reads the check-in value as midnight UTC, adds
  one to its local day of the month and prints the local date. West of UTC midnight UTC
  of day D is an evening hour of day D-1, local time, so the sum is day D: in New York a
  check-in of 2024-06-15 sets the check-out minimum to 2024-06-15, not 2024-06-16, and a
  check-out already on 2024-06-15 is kept. At UTC and in Kolkata the minimum is
  2024-06-16 and that check-out is cleared.
\<close>

theorem checkin_change_minimum_west_of_utc:
  "fieldValue booking_one_night_today ''checkin'' = ''2024-06-15'' \<and>
   fieldValue booking_one_night_today ''checkout'' = ''2024-06-15'' \<and>
   (case checkin_change env_new_york booking_one_night_today of
      Inl _ \<Rightarrow> None
    | Inr s' \<Rightarrow> Some (map_option minAttr (elements s' ''checkout''), fieldValue s' ''checkout''))
     = Some (Some ''2024-06-15'', ''2024-06-15'') \<and>
   (case checkin_change env_utc booking_one_night_today of
      Inl _ \<Rightarrow> None
    | Inr s' \<Rightarrow> Some (map_option minAttr (elements s' ''checkout''), fieldValue s' ''checkout''))
     = Some (Some ''2024-06-16'', '''') \<and>
   (case checkin_change env_kolkata booking_one_night_today of
      Inl _ \<Rightarrow> None
    | Inr s' \<Rightarrow> Some (map_option minAttr (elements s' ''checkout''), fieldValue s' ''checkout''))
     = Some (Some ''2024-06-16'', '''')"
  by code_simp


text \<open>The part of the change handler that no time zone touches: an emptied check-in clears the minimum.\<close>

lemma checkin_change_cleared:
  assumes "elements s ''checkin'' = Some ci" and "val ci = ''''"
    and "elements s ''checkout'' \<noteq> None"
  shows "checkin_change e s = Inr (modify ''checkout'' (\<lambda>c. c\<lparr>minAttr := ''''\<rparr>) s)"
  using assms by (auto simp: checkin_change_def getElementById_def)


end
